theory Spec2Isabelle
  imports Complex_Main "HOL-Library.Word" "HOL-Library.AList"
begin

unbundle bit_operations_syntax

section \<open>Go values\<close>

text \<open>
  The program is the cube demo of \<^verbatim>\<open>package main\<close>: \<^verbatim>\<open>main\<close>, \<^verbatim>\<open>newProgram\<close>,
  \<^verbatim>\<open>compileShader\<close>, \<^verbatim>\<open>newTexture\<close> and the table \<^verbatim>\<open>vertices\<close>. (The repository
  keeps two earlier stages of the same \<^verbatim>\<open>main\<close>, one that only opens the window and one
  that stops after \<^verbatim>\<open>gl.UseProgram\<close> and clears the window; the model is the last
  stage.) Everything it calls
  (GLFW, the OpenGL driver, the file system, the image library, the matrix library) is
  outside the repository; those collaborators are a record of answers, \<open>world\<close>, and
  every call the program makes is written to a trace.
\<close>

text \<open>
  \<^verbatim>\<open>uint32\<close> and \<^verbatim>\<open>int32\<close> are both 32-bit words; an \<^verbatim>\<open>int32\<close> is read in two's
  complement (\<open>sint\<close>), and the Go conversion \<^verbatim>\<open>uint32(x)\<close> of an \<^verbatim>\<open>int32\<close> keeps the
  bits.
\<close>

type_synonym uint32 = "32 word"
type_synonym int32 = "32 word"

definition uint32_of_int32 :: "int32 \<Rightarrow> uint32" where
  "uint32_of_int32 x = ucast x"

text \<open>
  A Go \<^verbatim>\<open>error\<close> value. \<open>PathError\<close> is what \<^verbatim>\<open>os.Open\<close> and \<^verbatim>\<open>ioutil.ReadFile\<close>
  return, \<open>Errorf\<close> is the value of \<^verbatim>\<open>fmt.Errorf\<close> with its formatted message,
  \<open>DecodeError\<close> is what \<^verbatim>\<open>image.Decode\<close> returns, \<open>LibraryError\<close> what \<^verbatim>\<open>glfw.Init\<close>,
  \<^verbatim>\<open>glfw.CreateWindow\<close> and \<^verbatim>\<open>gl.Init\<close> return.
\<close>

datatype go_error =
    PathError string
  | Errorf string
  | DecodeError string
  | LibraryError string

text \<open>
  What a Go function call ends in: \<open>Ok v\<close> is the return \<^verbatim>\<open>(v, nil)\<close>, \<open>Err e\<close> is
  the return \<^verbatim>\<open>(0, e)\<close>, \<open>Panic p\<close> is a panic that unwinds through the caller. The
  panics are \<^verbatim>\<open>panic(err)\<close> in \<^verbatim>\<open>main\<close>, the call of a method of a \<^verbatim>\<open>nil\<close> interface,
  \<^verbatim>\<open>strings.Repeat\<close> with a negative count, and \<^verbatim>\<open>gl.Str\<close> of a string that does not end
  in NUL.
\<close>

datatype go_panic =
    PanicError go_error
  | NilDereference
  | NegativeRepeatCount
  | MissingNullTerminator

datatype 'a result = Ok 'a | Err go_error | Panic go_panic

section \<open>The vertex table\<close>

text \<open>
  \<^verbatim>\<open>var vertices = []float32{...}\<close>. Every literal of the table (\<open>0\<close>, \<open>\<plusminus>0.5\<close>,
  \<open>\<plusminus>1\<close>) is a float32 value, so the table is a list of the rationals they denote.
\<close>

definition vertices :: "rat list" where
  "vertices =
    [-0.5, -0.5, -0.5, 1.0, 1.0, 1.0, 0.0, 0.0,
     0.5, -0.5, -0.5, 1.0, 1.0, 1.0, 1.0, 0.0,
     0.5, 0.5, -0.5, 1.0, 1.0, 1.0, 1.0, 1.0,
     0.5, 0.5, -0.5, 1.0, 1.0, 1.0, 1.0, 1.0,
     -0.5, 0.5, -0.5, 1.0, 1.0, 1.0, 0.0, 1.0,
     -0.5, -0.5, -0.5, 1.0, 1.0, 1.0, 0.0, 0.0,

     -0.5, -0.5, 0.5, 1.0, 1.0, 1.0, 0.0, 0.0,
     0.5, -0.5, 0.5, 1.0, 1.0, 1.0, 1.0, 0.0,
     0.5, 0.5, 0.5, 1.0, 1.0, 1.0, 1.0, 1.0,
     0.5, 0.5, 0.5, 1.0, 1.0, 1.0, 1.0, 1.0,
     -0.5, 0.5, 0.5, 1.0, 1.0, 1.0, 0.0, 1.0,
     -0.5, -0.5, 0.5, 1.0, 1.0, 1.0, 0.0, 0.0,

     -0.5, 0.5, 0.5, 1.0, 1.0, 1.0, 1.0, 0.0,
     -0.5, 0.5, -0.5, 1.0, 1.0, 1.0, 1.0, 1.0,
     -0.5, -0.5, -0.5, 1.0, 1.0, 1.0, 0.0, 1.0,
     -0.5, -0.5, -0.5, 1.0, 1.0, 1.0, 0.0, 1.0,
     -0.5, -0.5, 0.5, 1.0, 1.0, 1.0, 0.0, 0.0,
     -0.5, 0.5, 0.5, 1.0, 1.0, 1.0, 1.0, 0.0,

     0.5, 0.5, 0.5, 1.0, 1.0, 1.0, 1.0, 0.0,
     0.5, 0.5, -0.5, 1.0, 1.0, 1.0, 1.0, 1.0,
     0.5, -0.5, -0.5, 1.0, 1.0, 1.0, 0.0, 1.0,
     0.5, -0.5, -0.5, 1.0, 1.0, 1.0, 0.0, 1.0,
     0.5, -0.5, 0.5, 1.0, 1.0, 1.0, 0.0, 0.0,
     0.5, 0.5, 0.5, 1.0, 1.0, 1.0, 1.0, 0.0,

     -0.5, -0.5, -0.5, 1.0, 1.0, 1.0, 0.0, 1.0,
     0.5, -0.5, -0.5, 1.0, 1.0, 1.0, 1.0, 1.0,
     0.5, -0.5, 0.5, 1.0, 1.0, 1.0, 1.0, 0.0,
     0.5, -0.5, 0.5, 1.0, 1.0, 1.0, 1.0, 0.0,
     -0.5, -0.5, 0.5, 1.0, 1.0, 1.0, 0.0, 0.0,
     -0.5, -0.5, -0.5, 1.0, 1.0, 1.0, 0.0, 1.0,

     -0.5, 0.5, -0.5, 1.0, 1.0, 1.0, 0.0, 1.0,
     0.5, 0.5, -0.5, 1.0, 1.0, 1.0, 1.0, 1.0,
     0.5, 0.5, 0.5, 1.0, 1.0, 1.0, 1.0, 0.0,
     0.5, 0.5, 0.5, 1.0, 1.0, 1.0, 1.0, 0.0,
     -0.5, 0.5, 0.5, 1.0, 1.0, 1.0, 0.0, 0.0,
     -0.5, 0.5, -0.5, 1.0, 1.0, 1.0, 0.0, 1.0,

     -1.0, -1.0, -0.5, 0.0, 0.0, 0.0, 0.0, 0.0,
     1.0, -1.0, -0.5, 0.0, 0.0, 0.0, 1.0, 0.0,
     1.0, 1.0, -0.5, 0.0, 0.0, 0.0, 1.0, 1.0,
     1.0, 1.0, -0.5, 0.0, 0.0, 0.0, 1.0, 1.0,
     -1.0, 1.0, -0.5, 0.0, 0.0, 0.0, 0.0, 1.0,
     -1.0, -1.0, -0.5, 0.0, 0.0, 0.0, 0.0, 0.0]"

section \<open>Floating-point values\<close>

text \<open>
  A value of an IEEE 754 binary format: a finite value is the real number it denotes
  (the two zeros are one value), and there are the two infinities and NaN. \<^verbatim>\<open>float64\<close>
  and \<^verbatim>\<open>float32\<close> values share the type; the operations below round to the format.
\<close>

datatype float = NaN | NegInf | Finite real | PosInf

text \<open>The comparison \<^verbatim>\<open>a <= b\<close> on floating-point values: false as soon as one is NaN.\<close>

fun fle :: "float \<Rightarrow> float \<Rightarrow> bool" where
  "fle NaN b = False"
| "fle a NaN = False"
| "fle NegInf b = True"
| "fle a PosInf = True"
| "fle (Finite x) (Finite y) = (x \<le> y)"
| "fle a b = False"

text \<open>Rounding a real to the nearest integer, a tie going to the even one.\<close>

definition round_half_even :: "real \<Rightarrow> int" where
  "round_half_even y =
     (let n = \<lfloor>y\<rfloor> in
      if y - of_int n < 1 / 2 then n
      else if 1 / 2 < y - of_int n then n + 1
      else if even n then n else n + 1)"

text \<open>
  The spacing of the numbers of a format with \<open>p\<close> significand bits and least normal
  exponent \<open>emin\<close> around \<open>x \<noteq> 0\<close>: \<open>2 ^ (e - p + 1)\<close>, where \<open>e\<close> is the exponent of
  \<open>x\<close>, and \<open>emin\<close> for a subnormal \<open>x\<close>.
\<close>

definition quantum :: "nat \<Rightarrow> int \<Rightarrow> real \<Rightarrow> real" where
  "quantum p emin x = 2 powi (max \<lfloor>log 2 \<bar>x\<bar>\<rfloor> emin - int p + 1)"

text \<open>The exponent that \<open>quantum\<close> uses.\<close>

definition expo :: "int \<Rightarrow> real \<Rightarrow> int" where
  "expo emin x = max \<lfloor>log 2 \<bar>x\<bar>\<rfloor> emin"

text \<open>The real \<open>x\<close> rounded to nearest, ties to even, before the overflow check.\<close>

definition round_nearest :: "nat \<Rightarrow> int \<Rightarrow> real \<Rightarrow> real" where
  "round_nearest p emin x =
     (if x = 0 then 0
      else of_int (round_half_even (x / quantum p emin x)) * quantum p emin x)"

text \<open>
  Rounding to the format with greatest exponent \<open>emax\<close>: a rounded value of magnitude
  \<open>2 ^ (emax + 1)\<close> or more is an infinity.
\<close>

definition round_to_format :: "nat \<Rightarrow> int \<Rightarrow> int \<Rightarrow> real \<Rightarrow> float" where
  "round_to_format p emin emax x =
     (let r = round_nearest p emin x in
      if 2 powi (emax + 1) \<le> r then PosInf
      else if r \<le> - (2 powi (emax + 1)) then NegInf
      else Finite r)"

definition round64 :: "real \<Rightarrow> float" where
  "round64 = round_to_format 53 (- 1022) 1023"

definition round32 :: "real \<Rightarrow> float" where
  "round32 = round_to_format 24 (- 126) 127"

text \<open>The \<^verbatim>\<open>float64\<close> subtraction \<^verbatim>\<open>a - b\<close>.\<close>

fun sub64 :: "float \<Rightarrow> float \<Rightarrow> float" where
  "sub64 NaN b = NaN"
| "sub64 a NaN = NaN"
| "sub64 PosInf PosInf = NaN"
| "sub64 NegInf NegInf = NaN"
| "sub64 PosInf b = PosInf"
| "sub64 NegInf b = NegInf"
| "sub64 (Finite x) PosInf = NegInf"
| "sub64 (Finite x) NegInf = PosInf"
| "sub64 (Finite x) (Finite y) = round64 (x - y)"

text \<open>The conversion \<^verbatim>\<open>float32(x)\<close> of a \<^verbatim>\<open>float64\<close>.\<close>

fun float32_of :: "float \<Rightarrow> float" where
  "float32_of (Finite x) = round32 x"
| "float32_of a = a"

text \<open>
  The argument of \<^verbatim>\<open>mgl32.HomogRotate3DZ\<close> in the render loop:
  \<^verbatim>\<open>float32(glfw.GetTime() - startTime)\<close>.
\<close>

definition rotation_angle :: "float \<Rightarrow> float \<Rightarrow> float" where
  "rotation_angle startTime now = float32_of (sub64 now startTime)"

text \<open>
  The matrices the program hands to the driver. The matrix library is not part of the
  repository, so a matrix is the call that builds it: \<open>MatView\<close> is
  \<^verbatim>\<open>mgl32.LookAt(2.0, 2.0, 2.0, 0.0, 0.0, 0.0, 0.0, 0.0, 1.0)\<close>, \<open>MatProj\<close> is
  \<^verbatim>\<open>mgl32.Perspective(mgl32.DegToRad(45.0), 640.0/480.0, 1.0, 10.0)\<close>, and
  \<open>HomogRotate3DZ a\<close> is the rotation about Z by the angle \<open>a\<close>.
\<close>

datatype mat4 = MatView | MatProj | HomogRotate3DZ float

section \<open>The OpenGL and GLFW calls of the program\<close>

text \<open>The constants of the \<^verbatim>\<open>gl\<close> package that the program names.\<close>

datatype GLenum =
    VERTEX_SHADER | FRAGMENT_SHADER
  | ARRAY_BUFFER | STATIC_DRAW | FLOAT
  | TEXTURE0 | TEXTURE_2D | TEXTURE_MIN_FILTER | TEXTURE_MAG_FILTER | LINEAR
  | RGBA | UNSIGNED_BYTE
  | DEPTH_TEST | TRIANGLES
  | COMPILE_STATUS | LINK_STATUS | INFO_LOG_LENGTH

text \<open>The two bits of the mask of \<^verbatim>\<open>gl.Clear\<close>, with their values in the OpenGL headers.\<close>

definition COLOR_BUFFER_BIT :: uint32 where
  "COLOR_BUFFER_BIT = 0x4000"

definition DEPTH_BUFFER_BIT :: uint32 where
  "DEPTH_BUFFER_BIT = 0x100"

datatype window_hint =
    ContextVersionMajor | ContextVersionMinor | OpenGLProfile | OpenGLForwardCompatible

datatype hint_value = HintInt int | OpenGLCoreProfile | GlfwTrue

text \<open>
  One entry of the trace for every command the program sends to GLFW or to the driver, with
  the arguments as the source passes them. The calls that create an object carry the name
  the driver gave it. Queries (\<^verbatim>\<open>GetShaderiv\<close>, \<^verbatim>\<open>GetProgramiv\<close>, the info logs, the
  attribute and uniform locations, \<^verbatim>\<open>GetTime\<close>, \<^verbatim>\<open>ShouldClose\<close>) change nothing and are
  not recorded.
\<close>

datatype call =
    WindowHint window_hint hint_value
  | CreateWindow int int string
  | MakeContextCurrent
  | Terminate
  | CreateShader GLenum uint32
  | ShaderSource uint32 string
  | CompileShader uint32
  | CreateProgram uint32
  | AttachShader uint32 uint32
  | LinkProgram uint32
  | DeleteShader uint32
  | UseProgram uint32
  | GenVertexArrays uint32
  | BindVertexArray uint32
  | GenBuffers uint32
  | BindBuffer GLenum uint32
  | BufferData GLenum int "rat list" GLenum
  | VertexAttribPointer uint32 int GLenum bool int int
  | EnableVertexAttribArray uint32
  | GenTextures uint32
  | ActiveTexture GLenum
  | BindTexture GLenum uint32
  | TexParameteri GLenum GLenum GLenum
  | TexImage2D GLenum int GLenum int32 int32 int GLenum GLenum "8 word list"
  | UniformMatrix4fv int32 int bool mat4
  | Enable GLenum
  | ClearColor rat rat rat rat
  | Clear uint32
  | DrawArrays GLenum int int
  | SwapBuffers
  | PollEvents

section \<open>The driver's objects and the state\<close>

record shader_obj =
  sh_type :: GLenum
  sh_source :: string
  sh_compile_status :: bool
  sh_info_log_length :: int32
  sh_info_log :: string
  sh_delete_status :: bool

record program_obj =
  pr_attached :: "uint32 list"
  pr_link_status :: bool
  pr_info_log_length :: int32
  pr_info_log :: string

record attrib_array =
  aa_size :: int
  aa_type :: GLenum
  aa_normalized :: bool
  aa_stride :: int
  aa_offset :: int

datatype gl_error = INVALID_VALUE

text \<open>
  The state the calls act on: the trace, the next unused object name, the shader and
  program objects, the vertex attribute arrays that have a layout and those that are
  enabled, the errors the driver has recorded, and how many times the program has polled
  for events and read the clock.
\<close>

record gl_state =
  trace :: "call list"
  next_name :: uint32
  shaders :: "(uint32 \<times> shader_obj) list"
  programs :: "(uint32 \<times> program_obj) list"
  attrib_pointers :: "(uint32 \<times> attrib_array) list"
  attrib_enabled :: "uint32 list"
  gl_errors :: "gl_error list"
  polls :: nat
  ticks :: nat

definition init_state :: gl_state where
  "init_state =
     \<lparr>trace = [], next_name = 1, shaders = [], programs = [], attrib_pointers = [],
      attrib_enabled = [], gl_errors = [], polls = 0, ticks = 0\<rparr>"

section \<open>The collaborators\<close>

record rectangle =
  min_x :: int
  min_y :: int
  max_x :: int
  max_y :: int

text \<open>A decoded \<^verbatim>\<open>image.Image\<close>: its bounds and its content.\<close>

record image =
  img_bounds :: rectangle
  img_data :: "8 word list"

text \<open>The fields of \<^verbatim>\<open>image.RGBA\<close>.\<close>

record rgba =
  Pix :: "8 word list"
  Stride :: int
  Rect :: rectangle

text \<open>
  Everything outside the repository that the program asks: whether the three
  initialisations fail, the file system, what the driver answers when it compiles a source
  of a kind (the compile status, its answer to \<^verbatim>\<open>INFO_LOG_LENGTH\<close> and the info log) and
  links the attached shaders (the link status, the length and the info log), the attribute and uniform locations of a program, the driver's
  number of vertex attributes, the image decoder, \<^verbatim>\<open>image.NewRGBA\<close> and \<^verbatim>\<open>draw.Draw\<close>,
  the answer of \<^verbatim>\<open>window.ShouldClose\<close> after \<open>k\<close> polls and the value of the \<open>k\<close>-th
  \<^verbatim>\<open>glfw.GetTime\<close>.
\<close>

record world =
  glfw_init_error :: "go_error option"
  create_window_error :: "go_error option"
  gl_init_error :: "go_error option"
  files :: "string \<Rightarrow> go_error + string"
  driver_compile :: "GLenum \<Rightarrow> string \<Rightarrow> bool \<times> int32 \<times> string"
  driver_link :: "(GLenum \<times> string \<times> bool) list \<Rightarrow> bool \<times> int32 \<times> string"
  attrib_location :: "uint32 \<Rightarrow> string \<Rightarrow> int32"
  uniform_location :: "uint32 \<Rightarrow> string \<Rightarrow> int32"
  max_vertex_attribs :: uint32
  image_decode :: "string \<Rightarrow> go_error + image"
  new_rgba :: "rectangle \<Rightarrow> rgba"
  draw_src :: "rgba \<Rightarrow> image \<Rightarrow> 8 word list"
  should_close :: "nat \<Rightarrow> bool"
  get_time :: "nat \<Rightarrow> float"

section \<open>What each call does\<close>

definition issue :: "call \<Rightarrow> gl_state \<Rightarrow> gl_state" where
  "issue c s = s\<lparr>trace := trace s @ [c]\<rparr>"

text \<open>
  The driver names a new object with the next unused name. (A driver may pick any unused
  name; no claim depends on which.)
\<close>

definition gen_name :: "gl_state \<Rightarrow> uint32 \<times> gl_state" where
  "gen_name s = (next_name s, s\<lparr>next_name := next_name s + 1\<rparr>)"

text \<open>
  A C string ends at its first NUL: \<^verbatim>\<open>gl.Str(s + "\x00")\<close> hands the driver the bytes of
  \<open>s\<close> up to there.
\<close>

definition NUL :: char where
  "NUL = CHR 0x00"

definition c_string :: "string \<Rightarrow> string" where
  "c_string bs = takeWhile (\<lambda>c. c \<noteq> NUL) bs"

definition gl_CreateShader :: "GLenum \<Rightarrow> gl_state \<Rightarrow> uint32 \<times> gl_state" where
  "gl_CreateShader shaderType s =
     (let (n, s1) = gen_name s;
          obj = \<lparr>sh_type = shaderType, sh_source = [], sh_compile_status = False,
                 sh_info_log_length = 0, sh_info_log = [], sh_delete_status = False\<rparr>
      in (n, issue (CreateShader shaderType n)
               (s1\<lparr>shaders := AList.update n obj (shaders s1)\<rparr>)))"

definition gl_ShaderSource :: "uint32 \<Rightarrow> string \<Rightarrow> gl_state \<Rightarrow> gl_state" where
  "gl_ShaderSource shader csource s =
     issue (ShaderSource shader (c_string csource))
       (s\<lparr>shaders :=
            AList.map_entry shader (\<lambda>obj. obj\<lparr>sh_source := c_string csource\<rparr>) (shaders s)\<rparr>)"

definition gl_CompileShader :: "world \<Rightarrow> uint32 \<Rightarrow> gl_state \<Rightarrow> gl_state" where
  "gl_CompileShader w shader s =
     issue (CompileShader shader)
       (s\<lparr>shaders :=
            AList.map_entry shader
              (\<lambda>obj. obj\<lparr>sh_compile_status :=
                           fst (driver_compile w (sh_type obj) (sh_source obj)),
                         sh_info_log_length :=
                           fst (snd (driver_compile w (sh_type obj) (sh_source obj))),
                         sh_info_log :=
                           snd (snd (driver_compile w (sh_type obj) (sh_source obj)))\<rparr>)
              (shaders s)\<rparr>)"

text \<open>
  \<^verbatim>\<open>GetShaderiv\<close> and \<^verbatim>\<open>GetProgramiv\<close> store an \<^verbatim>\<open>int32\<close>: 1 or 0 for a status, and
  for \<^verbatim>\<open>INFO_LOG_LENGTH\<close> whatever length the driver reports.
\<close>

definition FALSE :: int32 where
  "FALSE = 0"

definition gl_GetShaderiv :: "uint32 \<Rightarrow> GLenum \<Rightarrow> gl_state \<Rightarrow> int32" where
  "gl_GetShaderiv shader pname s =
     (case map_of (shaders s) shader of
        None \<Rightarrow> 0
      | Some obj \<Rightarrow>
          if pname = COMPILE_STATUS then (if sh_compile_status obj then 1 else 0)
          else if pname = INFO_LOG_LENGTH then sh_info_log_length obj
          else 0)"

text \<open>
  \<^verbatim>\<open>GetShaderInfoLog\<close> and \<^verbatim>\<open>GetProgramInfoLog\<close> write at most \<open>bufSize\<close> bytes at the
  start of the buffer, the last one a NUL; the result is the buffer after the call.
\<close>

definition write_info_log :: "string \<Rightarrow> int \<Rightarrow> string \<Rightarrow> string" where
  "write_info_log infoLog bufSize buf =
     (if bufSize \<le> 0 then buf
      else let out = take (nat bufSize - 1) infoLog @ [NUL]
           in out @ drop (length out) buf)"

definition gl_GetShaderInfoLog :: "uint32 \<Rightarrow> int32 \<Rightarrow> string \<Rightarrow> gl_state \<Rightarrow> string" where
  "gl_GetShaderInfoLog shader bufSize buf s =
     (case map_of (shaders s) shader of
        None \<Rightarrow> buf
      | Some obj \<Rightarrow> write_info_log (sh_info_log obj) (sint bufSize) buf)"

text \<open>\<^verbatim>\<open>strings.Repeat\<close> panics when the count is negative.\<close>

definition strings_Repeat :: "string \<Rightarrow> int \<Rightarrow> go_panic + string" where
  "strings_Repeat str count =
     (if count < 0 then Inl NegativeRepeatCount else Inr (concat (replicate (nat count) str)))"

text \<open>
  \<^verbatim>\<open>gl.Str\<close> gives the driver the address of the bytes of a Go string, and panics when
  the string does not end in NUL.
\<close>

definition gl_Str :: "string \<Rightarrow> go_panic + string" where
  "gl_Str str = (if str \<noteq> [] \<and> last str = NUL then Inr str else Inl MissingNullTerminator)"

definition gl_CreateProgram :: "gl_state \<Rightarrow> uint32 \<times> gl_state" where
  "gl_CreateProgram s =
     (let (n, s1) = gen_name s;
          obj = \<lparr>pr_attached = [], pr_link_status = False, pr_info_log_length = 0,
                 pr_info_log = []\<rparr>
      in (n, issue (CreateProgram n) (s1\<lparr>programs := AList.update n obj (programs s1)\<rparr>)))"

definition gl_AttachShader :: "uint32 \<Rightarrow> uint32 \<Rightarrow> gl_state \<Rightarrow> gl_state" where
  "gl_AttachShader program shader s =
     issue (AttachShader program shader)
       (s\<lparr>programs :=
            AList.map_entry program
              (\<lambda>obj. obj\<lparr>pr_attached := pr_attached obj @ [shader]\<rparr>) (programs s)\<rparr>)"

text \<open>What the linker is given: kind, source and compile status of each attached shader.\<close>

definition shader_inputs :: "gl_state \<Rightarrow> uint32 list \<Rightarrow> (GLenum \<times> string \<times> bool) list" where
  "shader_inputs s ns =
     concat (map (\<lambda>n. case map_of (shaders s) n of
                         None \<Rightarrow> []
                       | Some sh \<Rightarrow> [(sh_type sh, sh_source sh, sh_compile_status sh)]) ns)"

definition gl_LinkProgram :: "world \<Rightarrow> uint32 \<Rightarrow> gl_state \<Rightarrow> gl_state" where
  "gl_LinkProgram w program s =
     issue (LinkProgram program)
       (s\<lparr>programs :=
            AList.map_entry program
              (\<lambda>obj. obj\<lparr>pr_link_status :=
                           fst (driver_link w (shader_inputs s (pr_attached obj))),
                         pr_info_log_length :=
                           fst (snd (driver_link w (shader_inputs s (pr_attached obj)))),
                         pr_info_log :=
                           snd (snd (driver_link w (shader_inputs s (pr_attached obj))))\<rparr>)
              (programs s)\<rparr>)"

definition gl_GetProgramiv :: "uint32 \<Rightarrow> GLenum \<Rightarrow> gl_state \<Rightarrow> int32" where
  "gl_GetProgramiv program pname s =
     (case map_of (programs s) program of
        None \<Rightarrow> 0
      | Some obj \<Rightarrow>
          if pname = LINK_STATUS then (if pr_link_status obj then 1 else 0)
          else if pname = INFO_LOG_LENGTH then pr_info_log_length obj
          else 0)"

definition gl_GetProgramInfoLog :: "uint32 \<Rightarrow> int32 \<Rightarrow> string \<Rightarrow> gl_state \<Rightarrow> string" where
  "gl_GetProgramInfoLog program bufSize buf s =
     (case map_of (programs s) program of
        None \<Rightarrow> buf
      | Some obj \<Rightarrow> write_info_log (pr_info_log obj) (sint bufSize) buf)"

text \<open>
  \<^verbatim>\<open>DeleteShader\<close> frees a shader that no program has attached; an attached shader is
  flagged for deletion and goes when the program lets it go.
\<close>

definition attached_somewhere :: "gl_state \<Rightarrow> uint32 \<Rightarrow> bool" where
  "attached_somewhere s shader = list_ex (\<lambda>(p, obj). shader \<in> set (pr_attached obj)) (programs s)"

definition gl_DeleteShader :: "uint32 \<Rightarrow> gl_state \<Rightarrow> gl_state" where
  "gl_DeleteShader shader s =
     issue (DeleteShader shader)
       (s\<lparr>shaders :=
            (if attached_somewhere s shader
             then AList.map_entry shader (\<lambda>obj. obj\<lparr>sh_delete_status := True\<rparr>) (shaders s)
             else AList.delete shader (shaders s))\<rparr>)"

text \<open>
  A shader or program object that the application still holds: it exists and has not been
  handed to \<^verbatim>\<open>DeleteShader\<close>.
\<close>

definition live_shader :: "gl_state \<Rightarrow> uint32 \<Rightarrow> bool" where
  "live_shader s n =
     (case map_of (shaders s) n of None \<Rightarrow> False | Some obj \<Rightarrow> \<not> sh_delete_status obj)"

definition live_program :: "gl_state \<Rightarrow> uint32 \<Rightarrow> bool" where
  "live_program s n = (case map_of (programs s) n of None \<Rightarrow> False | Some obj \<Rightarrow> True)"

definition gl_GenVertexArrays :: "gl_state \<Rightarrow> uint32 \<times> gl_state" where
  "gl_GenVertexArrays s = (let (n, s1) = gen_name s in (n, issue (GenVertexArrays n) s1))"

definition gl_GenBuffers :: "gl_state \<Rightarrow> uint32 \<times> gl_state" where
  "gl_GenBuffers s = (let (n, s1) = gen_name s in (n, issue (GenBuffers n) s1))"

definition gl_GenTextures :: "gl_state \<Rightarrow> uint32 \<times> gl_state" where
  "gl_GenTextures s = (let (n, s1) = gen_name s in (n, issue (GenTextures n) s1))"

text \<open>
  The two calls on a vertex attribute array. An index that is not below
  \<^verbatim>\<open>MAX_VERTEX_ATTRIBS\<close> makes the driver record \<^verbatim>\<open>INVALID_VALUE\<close> and ignore the call.
\<close>

definition gl_VertexAttribPointer ::
  "world \<Rightarrow> uint32 \<Rightarrow> int \<Rightarrow> GLenum \<Rightarrow> bool \<Rightarrow> int \<Rightarrow> int \<Rightarrow> gl_state \<Rightarrow> gl_state" where
  "gl_VertexAttribPointer w index asize xtype normalized stride offset s =
     issue (VertexAttribPointer index asize xtype normalized stride offset)
       (if max_vertex_attribs w \<le> index
        then s\<lparr>gl_errors := gl_errors s @ [INVALID_VALUE]\<rparr>
        else s\<lparr>attrib_pointers :=
                 AList.update index
                   \<lparr>aa_size = asize, aa_type = xtype, aa_normalized = normalized,
                    aa_stride = stride, aa_offset = offset\<rparr>
                   (attrib_pointers s)\<rparr>)"

definition gl_EnableVertexAttribArray :: "world \<Rightarrow> uint32 \<Rightarrow> gl_state \<Rightarrow> gl_state" where
  "gl_EnableVertexAttribArray w index s =
     issue (EnableVertexAttribArray index)
       (if max_vertex_attribs w \<le> index
        then s\<lparr>gl_errors := gl_errors s @ [INVALID_VALUE]\<rparr>
        else s\<lparr>attrib_enabled := List.insert index (attrib_enabled s)\<rparr>)"

definition glfw_PollEvents :: "gl_state \<Rightarrow> gl_state" where
  "glfw_PollEvents s = issue PollEvents (s\<lparr>polls := polls s + 1\<rparr>)"

definition glfw_GetTime :: "world \<Rightarrow> gl_state \<Rightarrow> float \<times> gl_state" where
  "glfw_GetTime w s = (get_time w (ticks s), s\<lparr>ticks := ticks s + 1\<rparr>)"

definition window_ShouldClose :: "world \<Rightarrow> gl_state \<Rightarrow> bool" where
  "window_ShouldClose w s = should_close w (polls s)"

section \<open>The program\<close>

text \<open>
  \<^verbatim>\<open>func compileShader(sourceFile string, shaderType uint32) (uint32, error)\<close>. The
  length of the log is the driver's \<^verbatim>\<open>int32\<close>; \<^verbatim>\<open>logLength+1\<close> is computed in
  \<^verbatim>\<open>int32\<close> and wraps, and \<^verbatim>\<open>int(...)\<close> reads the result as a signed number.
\<close>

definition compileShader ::
  "world \<Rightarrow> string \<Rightarrow> GLenum \<Rightarrow> gl_state \<Rightarrow> uint32 result \<times> gl_state" where
  "compileShader w sourceFile shaderType s =
     (case files w sourceFile of
        Inl err \<Rightarrow> (Err err, s)
      | Inr sourceBytes \<Rightarrow>
          (case gl_Str (sourceBytes @ [NUL]) of
             Inl p \<Rightarrow> (Panic p, s)
           | Inr csource \<Rightarrow>
               let (shader, s1) = gl_CreateShader shaderType s;
                   s2 = gl_ShaderSource shader csource s1;
                   s3 = gl_CompileShader w shader s2;
                   status = gl_GetShaderiv shader COMPILE_STATUS s3
               in if status = FALSE then
                    let logLength = gl_GetShaderiv shader INFO_LOG_LENGTH s3
                    in (case strings_Repeat [NUL] (sint (logLength + 1)) of
                          Inl p \<Rightarrow> (Panic p, s3)
                        | Inr buffer \<Rightarrow>
                            (case gl_Str buffer of
                               Inl p \<Rightarrow> (Panic p, s3)
                             | Inr buf \<Rightarrow>
                                 let log' = gl_GetShaderInfoLog shader logLength buf s3
                                 in (Err (Errorf (''failed to compile '' @ sourceFile @
                                                    '': '' @ log')), s3)))
                  else (Ok shader, s3)))"

text \<open>\<^verbatim>\<open>func newProgram(vertexShaderFile, fragmentShaderFile string) (uint32, error)\<close>\<close>

definition newProgram ::
  "world \<Rightarrow> string \<Rightarrow> string \<Rightarrow> gl_state \<Rightarrow> uint32 result \<times> gl_state" where
  "newProgram w vertexShaderFile fragmentShaderFile s =
     (case compileShader w vertexShaderFile VERTEX_SHADER s of
        (Err err, s1) \<Rightarrow> (Err err, s1)
      | (Panic p, s1) \<Rightarrow> (Panic p, s1)
      | (Ok vertexShader, s1) \<Rightarrow>
          (case compileShader w fragmentShaderFile FRAGMENT_SHADER s1 of
             (Err err, s2) \<Rightarrow> (Err err, s2)
           | (Panic p, s2) \<Rightarrow> (Panic p, s2)
           | (Ok fragmentShader, s2) \<Rightarrow>
               let (program, s3) = gl_CreateProgram s2;
                   s4 = gl_AttachShader program vertexShader s3;
                   s5 = gl_AttachShader program fragmentShader s4;
                   s6 = gl_LinkProgram w program s5;
                   status = gl_GetProgramiv program LINK_STATUS s6
               in if status = FALSE then
                    let logLength = gl_GetProgramiv program INFO_LOG_LENGTH s6
                    in (case strings_Repeat [NUL] (sint (logLength + 1)) of
                          Inl p \<Rightarrow> (Panic p, s6)
                        | Inr buffer \<Rightarrow>
                            (case gl_Str buffer of
                               Inl p \<Rightarrow> (Panic p, s6)
                             | Inr buf \<Rightarrow>
                                 let log' = gl_GetProgramInfoLog program logLength buf s6
                                 in (Err (Errorf (''failed to link program: '' @ log')), s6)))
                  else
                    let s7 = gl_DeleteShader vertexShader s6;
                        s8 = gl_DeleteShader fragmentShader s7
                    in (Ok program, s8)))"

text \<open>
  \<^verbatim>\<open>func newTexture(file string, texNum uint32) (uint32, error)\<close>. The error of
  \<^verbatim>\<open>image.Decode\<close> is assigned and never read; when decoding fails the image is \<^verbatim>\<open>nil\<close>
  and \<^verbatim>\<open>img.Bounds()\<close> panics.
\<close>

definition size_X :: "rectangle \<Rightarrow> int" where
  "size_X r = max_x r - min_x r"

definition size_Y :: "rectangle \<Rightarrow> int" where
  "size_Y r = max_y r - min_y r"

definition newTexture ::
  "world \<Rightarrow> string \<Rightarrow> GLenum \<Rightarrow> gl_state \<Rightarrow> uint32 result \<times> gl_state" where
  "newTexture w file texNum s =
     (case files w file of
        Inl err \<Rightarrow> (Err err, s)
      | Inr imgFile \<Rightarrow>
          (case image_decode w imgFile of
             Inl err \<Rightarrow> (Panic NilDereference, s)
           | Inr img \<Rightarrow>
               let rgba = new_rgba w (img_bounds img)
               in if Stride rgba \<noteq> size_X (Rect rgba) * 4
                  then (Err (Errorf ''unsupported stride''), s)
                  else
                    let pix = draw_src w rgba img;
                        (texture, s1) = gl_GenTextures s;
                        s2 = issue (ActiveTexture texNum) s1;
                        s3 = issue (BindTexture TEXTURE_2D texture) s2;
                        s4 = issue (TexParameteri TEXTURE_2D TEXTURE_MIN_FILTER LINEAR) s3;
                        s5 = issue (TexParameteri TEXTURE_2D TEXTURE_MAG_FILTER LINEAR) s4;
                        s6 = issue (TexImage2D TEXTURE_2D 0 RGBA
                                      (word_of_int (size_X (Rect rgba)))
                                      (word_of_int (size_Y (Rect rgba)))
                                      0 RGBA UNSIGNED_BYTE pix) s5
                    in (Ok texture, s6)))"

text \<open>
  The three statements that \<^verbatim>\<open>main\<close> writes once for each of \<^verbatim>\<open>position\<close>, \<^verbatim>\<open>color\<close>
  and \<^verbatim>\<open>texCoord\<close>: the location, converted to \<^verbatim>\<open>uint32\<close>, then the layout, then the
  enabling.
\<close>

definition attrib_setup ::
  "world \<Rightarrow> uint32 \<Rightarrow> string \<Rightarrow> int \<Rightarrow> int \<Rightarrow> gl_state \<Rightarrow> gl_state" where
  "attrib_setup w program name asize offset s =
     (let attrib = uint32_of_int32 (attrib_location w program name);
          s1 = gl_VertexAttribPointer w attrib asize FLOAT False (8 * 4) offset s;
          s2 = gl_EnableVertexAttribArray w attrib s1
      in s2)"

text \<open>\<^verbatim>\<open>main\<close> from \<^verbatim>\<open>gl.UseProgram(program)\<close> to the third attribute.\<close>

definition upload_geometry :: "world \<Rightarrow> uint32 \<Rightarrow> gl_state \<Rightarrow> gl_state" where
  "upload_geometry w program s =
     (let s1 = issue (UseProgram program) s;
          (vao, s2) = gl_GenVertexArrays s1;
          s3 = issue (BindVertexArray vao) s2;
          (vbo, s4) = gl_GenBuffers s3;
          s5 = issue (BindBuffer ARRAY_BUFFER vbo) s4;
          s6 = issue (BufferData ARRAY_BUFFER (int (length vertices) * 4) vertices
                        STATIC_DRAW) s5;
          s7 = attrib_setup w program ''position'' 3 0 s6;
          s8 = attrib_setup w program ''color'' 3 (3 * 4) s7;
          s9 = attrib_setup w program ''texCoord'' 2 (6 * 4) s8
      in s9)"

text \<open>
  \<^verbatim>\<open>main\<close> from the three uniform locations to \<^verbatim>\<open>gl.ClearColor\<close>; the result is what the
  loop reads: \<^verbatim>\<open>uniModel\<close> and \<^verbatim>\<open>startTime\<close>.
\<close>

definition set_uniforms :: "world \<Rightarrow> uint32 \<Rightarrow> gl_state \<Rightarrow> (int32 \<times> float) \<times> gl_state" where
  "set_uniforms w program s =
     (let uniModel = uniform_location w program ''model'';
          uniView = uniform_location w program ''view'';
          uniProj = uniform_location w program ''proj'';
          s1 = issue (UniformMatrix4fv uniView 1 False MatView) s;
          s2 = issue (UniformMatrix4fv uniProj 1 False MatProj) s1;
          (startTime, s3) = glfw_GetTime w s2;
          s4 = issue (Enable DEPTH_TEST) s3;
          s5 = issue (ClearColor 1 1 1 1) s4
      in ((uniModel, startTime), s5))"

text \<open>The body of the loop \<^verbatim>\<open>for !window.ShouldClose() { ... }\<close>.\<close>

definition frame :: "world \<Rightarrow> int32 \<Rightarrow> float \<Rightarrow> gl_state \<Rightarrow> gl_state" where
  "frame w uniModel startTime s =
     (let s1 = issue (Clear (COLOR_BUFFER_BIT OR DEPTH_BUFFER_BIT)) s;
          (now, s2) = glfw_GetTime w s1;
          matRot = HomogRotate3DZ (float32_of (sub64 now startTime));
          s3 = issue (UniformMatrix4fv uniModel 1 False matRot) s2;
          s4 = issue (DrawArrays TRIANGLES 0 36) s3;
          s5 = issue SwapBuffers s4;
          s6 = glfw_PollEvents s5
      in s6)"

text \<open>
  The loop runs until the window answers that it should close, which it may never do:
  \<open>None\<close> is the run that does not end.
\<close>

partial_function (option) render_loop ::
  "world \<Rightarrow> int32 \<Rightarrow> float \<Rightarrow> gl_state \<Rightarrow> gl_state option" where
  "render_loop w uniModel startTime s =
     (if window_ShouldClose w s then Some s
      else render_loop w uniModel startTime (frame w uniModel startTime s))"

text \<open>
  \<^verbatim>\<open>main\<close> from \<^verbatim>\<open>newProgram\<close> to \<^verbatim>\<open>gl.ClearColor\<close>: everything before the loop that
  talks to the driver. \<^verbatim>\<open>panic(err)\<close> is the result \<open>Panic (PanicError err)\<close>; a panic
  inside a callee passes through. The result is what the loop has in scope.
\<close>

definition startup ::
  "world \<Rightarrow> gl_state \<Rightarrow> (uint32 \<times> int32 \<times> float) result \<times> gl_state" where
  "startup w s =
     (case newProgram w ''vertex.glsl'' ''fragment.glsl'' s of
        (Err err, s1) \<Rightarrow> (Panic (PanicError err), s1)
      | (Panic p, s1) \<Rightarrow> (Panic p, s1)
      | (Ok program, s1) \<Rightarrow>
          (case newTexture w ''kitten.png'' TEXTURE0 (upload_geometry w program s1) of
             (Err err, s2) \<Rightarrow> (Panic (PanicError err), s2)
           | (Panic p, s2) \<Rightarrow> (Panic p, s2)
           | (Ok texture, s2) \<Rightarrow>
               (case set_uniforms w program s2 of
                  ((uniModel, startTime), s3) \<Rightarrow> (Ok (program, uniModel, startTime), s3))))"

text \<open>\<^verbatim>\<open>main\<close> from \<^verbatim>\<open>newProgram\<close> to the end of the loop.\<close>

definition draw_cube :: "world \<Rightarrow> gl_state \<Rightarrow> (unit result \<times> gl_state) option" where
  "draw_cube w s =
     (case startup w s of
        (Ok (program, uniModel, startTime), s1) \<Rightarrow>
          map_option (\<lambda>s2. (Ok (), s2)) (render_loop w uniModel startTime s1)
      | (Err err, s1) \<Rightarrow> Some (Err err, s1)
      | (Panic p, s1) \<Rightarrow> Some (Panic p, s1))"

text \<open>\<^verbatim>\<open>main\<close> from the window hints on, that is under \<^verbatim>\<open>defer glfw.Terminate()\<close>.\<close>

definition open_window :: "world \<Rightarrow> gl_state \<Rightarrow> (unit result \<times> gl_state) option" where
  "open_window w s =
     (let s1 = issue (WindowHint ContextVersionMajor (HintInt 3)) s;
          s2 = issue (WindowHint ContextVersionMinor (HintInt 3)) s1;
          s3 = issue (WindowHint OpenGLProfile OpenGLCoreProfile) s2;
          s4 = issue (WindowHint OpenGLForwardCompatible GlfwTrue) s3;
          s5 = issue (CreateWindow 640 480 ''GOPenGL'') s4
      in case create_window_error w of
           Some err \<Rightarrow> Some (Panic (PanicError err), s5)
         | None \<Rightarrow>
             let s6 = issue MakeContextCurrent s5
             in (case gl_init_error w of
                   Some err \<Rightarrow> Some (Panic (PanicError err), s6)
                 | None \<Rightarrow> draw_cube w s6))"

text \<open>
  \<^verbatim>\<open>func main()\<close>. The deferred \<^verbatim>\<open>glfw.Terminate()\<close> runs when \<^verbatim>\<open>main\<close> ends, by return
  or by panic.
\<close>

definition main :: "world \<Rightarrow> (unit result \<times> gl_state) option" where
  "main w =
     (case glfw_init_error w of
        Some err \<Rightarrow> Some (Panic (PanicError err), init_state)
      | None \<Rightarrow> map_option (\<lambda>(r, s). (r, issue Terminate s)) (open_window w init_state))"

section \<open>Reading the trace\<close>

definition is_UniformMatrix4fv :: "call \<Rightarrow> bool" where
  "is_UniformMatrix4fv c = (case c of UniformMatrix4fv l n t m \<Rightarrow> True | _ \<Rightarrow> False)"

definition is_BufferData :: "call \<Rightarrow> bool" where
  "is_BufferData c = (case c of BufferData t n d u \<Rightarrow> True | _ \<Rightarrow> False)"

definition is_DrawArrays :: "call \<Rightarrow> bool" where
  "is_DrawArrays c = (case c of DrawArrays m f n \<Rightarrow> True | _ \<Rightarrow> False)"

definition is_TexImage2D :: "call \<Rightarrow> bool" where
  "is_TexImage2D c = (case c of TexImage2D t l i w h b f y p \<Rightarrow> True | _ \<Rightarrow> False)"

text \<open>The calls on shader and program objects, and the calls on textures.\<close>

definition is_object_call :: "call \<Rightarrow> bool" where
  "is_object_call c =
     (case c of
        CreateShader t n \<Rightarrow> True
      | ShaderSource n src \<Rightarrow> True
      | CompileShader n \<Rightarrow> True
      | CreateProgram n \<Rightarrow> True
      | AttachShader p n \<Rightarrow> True
      | LinkProgram p \<Rightarrow> True
      | DeleteShader n \<Rightarrow> True
      | _ \<Rightarrow> False)"

definition is_texture_call :: "call \<Rightarrow> bool" where
  "is_texture_call c =
     (case c of
        GenTextures n \<Rightarrow> True
      | ActiveTexture u \<Rightarrow> True
      | BindTexture t n \<Rightarrow> True
      | TexParameteri t p v \<Rightarrow> True
      | TexImage2D t l i w h b f y p \<Rightarrow> True
      | _ \<Rightarrow> False)"

text \<open>
  What \<^verbatim>\<open>newProgram\<close> and \<^verbatim>\<open>newTexture\<close> leave alone: everything but the objects, the
  names and the trace, which they extend by calls of one kind.
\<close>

definition extends_by :: "(call \<Rightarrow> bool) \<Rightarrow> gl_state \<Rightarrow> gl_state \<Rightarrow> bool" where
  "extends_by P s s' =
     ((\<exists>cs. trace s' = trace s @ cs \<and> list_all P cs) \<and>
      attrib_pointers s' = attrib_pointers s \<and> attrib_enabled s' = attrib_enabled s \<and>
      gl_errors s' = gl_errors s \<and> polls s' = polls s \<and> ticks s' = ticks s)"

text \<open>A call that writes the matrix uniform at a location.\<close>

definition writes_uniform :: "int32 \<Rightarrow> call \<Rightarrow> bool" where
  "writes_uniform loc c = (case c of UniformMatrix4fv l n t m \<Rightarrow> l = loc | _ \<Rightarrow> False)"

text \<open>The vertices a call draws: \<open>first, ..., first + count - 1\<close> for \<^verbatim>\<open>DrawArrays\<close>.\<close>

definition drawn_vertices :: "call \<Rightarrow> int list" where
  "drawn_vertices c = (case c of DrawArrays m f n \<Rightarrow> [f..f + n - 1] | _ \<Rightarrow> [])"

text \<open>
  The three statements that \<^verbatim>\<open>compileShader\<close> and \<^verbatim>\<open>newProgram\<close> share, as one function
  of the driver's two answers: the buffer from \<^verbatim>\<open>strings.Repeat\<close>, its address from
  \<^verbatim>\<open>gl.Str\<close>, and the buffer after the driver has written the log into it.
\<close>

definition go_log :: "int32 \<Rightarrow> string \<Rightarrow> go_panic + string" where
  "go_log logLength infoLog =
     (case strings_Repeat [NUL] (sint (logLength + 1)) of
        Inl p \<Rightarrow> Inl p
      | Inr buffer \<Rightarrow>
          (case gl_Str buffer of
             Inl p \<Rightarrow> Inl p
           | Inr buf \<Rightarrow> Inr (write_info_log infoLog (sint logLength) buf)))"

text \<open>
  What the Go string \<^verbatim>\<open>log\<close> holds when the driver reports the length \<open>n \<ge> 0\<close>: the
  first \<open>n - 1\<close> bytes of the info log, then NULs up to the length \<open>n + 1\<close> of the buffer.
\<close>

definition log_buffer :: "int \<Rightarrow> string \<Rightarrow> string" where
  "log_buffer n infoLog =
     take (nat n - 1) infoLog @
     replicate (nat n + 1 - min (nat n - 1) (length infoLog)) NUL"

text \<open>The calls of one iteration of the loop, for the angle of that iteration.\<close>

definition frame_calls :: "int32 \<Rightarrow> float \<Rightarrow> call list" where
  "frame_calls uniModel angle =
     [Clear (COLOR_BUFFER_BIT OR DEPTH_BUFFER_BIT),
      UniformMatrix4fv uniModel 1 False (HomogRotate3DZ angle),
      DrawArrays TRIANGLES 0 36,
      SwapBuffers,
      PollEvents]"

text \<open>The record of the vertex table at an index: eight floats, as the attribute layout reads them.\<close>

definition vertex_record :: "nat \<Rightarrow> rat list" where
  "vertex_record i = take 8 (drop (8 * i) vertices)"

definition position :: "nat \<Rightarrow> rat list" where
  "position i = take 3 (vertex_record i)"

definition color :: "nat \<Rightarrow> rat list" where
  "color i = take 3 (drop 3 (vertex_record i))"

definition texCoord :: "nat \<Rightarrow> rat list" where
  "texCoord i = take 2 (drop 6 (vertex_record i))"

text \<open>The three initialisations at the top of \<^verbatim>\<open>main\<close> succeed.\<close>

definition starts :: "world \<Rightarrow> bool" where
  "starts w = (glfw_init_error w = None \<and> create_window_error w = None \<and> gl_init_error w = None)"

text \<open>The state in which \<^verbatim>\<open>main\<close> reaches \<^verbatim>\<open>newProgram\<close>.\<close>

definition window_state :: gl_state where
  "window_state =
     init_state\<lparr>trace :=
       [WindowHint ContextVersionMajor (HintInt 3),
        WindowHint ContextVersionMinor (HintInt 3),
        WindowHint OpenGLProfile OpenGLCoreProfile,
        WindowHint OpenGLForwardCompatible GlfwTrue,
        CreateWindow 640 480 ''GOPenGL'',
        MakeContextCurrent]\<rparr>"

section \<open>A sample world\<close>

text \<open>
  A world in which everything works: the three files exist, the driver accepts both
  shaders and links them, the three attributes and the three uniforms are active, the image
  is 2 by 2 pixels, \<^verbatim>\<open>image.NewRGBA\<close> allocates contiguous rows as the Go library does,
  the clock shows whole seconds and the window closes after two frames.
\<close>

definition sample_image :: image where
  "sample_image = \<lparr>img_bounds = \<lparr>min_x = 0, min_y = 0, max_x = 2, max_y = 2\<rparr>, img_data = []\<rparr>"

definition sample_world :: world where
  "sample_world =
     \<lparr>glfw_init_error = None,
      create_window_error = None,
      gl_init_error = None,
      files = (\<lambda>f. if f = ''vertex.glsl'' then Inr ''void main() {}''
                   else if f = ''fragment.glsl'' then Inr ''void main() {}''
                   else if f = ''kitten.png'' then Inr ''PNG''
                   else Inl (PathError f)),
      driver_compile = (\<lambda>ty src. (True, 0, [])),
      driver_link = (\<lambda>inputs. (True, 0, [])),
      attrib_location = (\<lambda>p n. if n = ''position'' then 0 else if n = ''color'' then 1 else 2),
      uniform_location = (\<lambda>p n. if n = ''model'' then 0 else if n = ''view'' then 1 else 2),
      max_vertex_attribs = 16,
      image_decode = (\<lambda>bs. Inr sample_image),
      new_rgba = (\<lambda>r. \<lparr>Pix = replicate (nat (4 * size_X r * size_Y r)) 0,
                         Stride = 4 * size_X r, Rect = r\<rparr>),
      draw_src = (\<lambda>rgba img. Pix rgba),
      should_close = (\<lambda>k. 2 \<le> k),
      get_time = (\<lambda>k. Finite (real k))\<rparr>"

section \<open>Properties\<close>

subsection \<open>Compiling a shader\<close>

lemma c_string_NUL: "c_string (bs @ [NUL]) = c_string bs"
  by (induction bs) (simp_all add: c_string_def)

lemma sint_succ:
  assumes "sint (n :: int32) < 2 ^ 31 - 1"
  shows "sint (n + 1) = sint n + 1"
proof -
  have "- (2 ^ 31) \<le> sint n"
    using sint_ge [of n] by simp
  then have "signed_take_bit 31 (sint n + 1) = sint n + 1"
    using assms by (intro signed_take_bit_int_eq_self) simp_all
  then show ?thesis
    by (simp add: sint_word_ariths)
qed

lemma write_info_log_buffer:
  assumes "0 \<le> n"
  shows "write_info_log L n (replicate (nat (n + 1)) NUL) = log_buffer n L"
proof (cases "n = 0")
  case True
  then show ?thesis
    by (simp add: write_info_log_def log_buffer_def)
next
  case False
  define k where "k = nat n"
  have k: "0 < k" "nat (n + 1) = Suc k"
    using assms False by (simp_all add: k_def nat_add_distrib)
  have "Suc k - min (k - Suc 0) (length L) = Suc (k - min (length L) (k - Suc 0))"
    using k(1) by arith
  then have "NUL # replicate (k - min (length L) (k - Suc 0)) NUL =
      replicate (Suc k - min (k - Suc 0) (length L)) NUL"
    by simp
  then show ?thesis
    using False assms
    by (simp add: write_info_log_def log_buffer_def Let_def k k_def [symmetric])
qed

lemma go_log_in_range:
  assumes "0 \<le> sint n" "sint n < 2 ^ 31 - 1"
  shows "go_log n L = Inr (log_buffer (sint n) L)"
proof -
  have "last (replicate (nat (sint n + 1)) NUL) = NUL" "replicate (nat (sint n + 1)) NUL \<noteq> []"
    using assms(1) by (simp_all add: nat_add_distrib)
  then show ?thesis
    using assms(1)
    by (simp add: go_log_def strings_Repeat_def gl_Str_def sint_succ [OF assms(2)]
          write_info_log_buffer)
qed

lemma go_log_negative:
  "sint (n + 1) < 0 \<Longrightarrow> go_log n L = Inl NegativeRepeatCount"
  by (simp add: go_log_def strings_Repeat_def)

lemma log_buffer_facts:
  "log_buffer n L \<noteq> []"
  "n = int (length L) + 1 \<Longrightarrow> log_buffer n L = L @ [NUL, NUL]"
  "log_buffer 0 L = [NUL]"
proof -
  show "log_buffer n L \<noteq> []"
    unfolding log_buffer_def append_is_Nil_conv replicate_empty by arith
  show "n = int (length L) + 1 \<Longrightarrow> log_buffer n L = L @ [NUL, NUL]"
    by (simp add: log_buffer_def nat_add_distrib numeral_2_eq_2)
  show "log_buffer 0 L = [NUL]"
    by (simp add: log_buffer_def)
qed

lemma gl_Str_terminated: "gl_Str (bs @ [NUL]) = Inr (bs @ [NUL])"
  by (simp add: gl_Str_def)

lemma compileShader_unreadable:
  "files w f = Inl e \<Longrightarrow> compileShader w f ty s = (Err e, s)"
  by (simp add: compileShader_def)

lemma compileShader_fst:
  "files w f = Inr src \<Longrightarrow> fst (compileShader w f ty s) =
     (if fst (driver_compile w ty (c_string src)) then Ok (next_name s)
      else case go_log (fst (snd (driver_compile w ty (c_string src))))
                  (snd (snd (driver_compile w ty (c_string src)))) of
             Inl p \<Rightarrow> Panic p
           | Inr lg \<Rightarrow> Err (Errorf (''failed to compile '' @ f @ '': '' @ lg)))"
  by (simp add: compileShader_def gl_Str_terminated Let_def split_def gl_CreateShader_def
        gen_name_def gl_GetShaderiv_def gl_GetShaderInfoLog_def gl_CompileShader_def
        gl_ShaderSource_def issue_def map_of_map_entry update_conv' c_string_NUL FALSE_def
        go_log_def split: sum.splits)

lemma compileShader_snd:
  "files w f = Inr src \<Longrightarrow>
   trace (snd (compileShader w f ty s)) =
     trace s @ [CreateShader ty (next_name s), ShaderSource (next_name s) (c_string src),
                CompileShader (next_name s)] \<and>
   next_name (snd (compileShader w f ty s)) = next_name s + 1 \<and>
   map_of (shaders (snd (compileShader w f ty s))) =
     (map_of (shaders s))(next_name s \<mapsto>
        \<lparr>sh_type = ty, sh_source = c_string src,
         sh_compile_status = fst (driver_compile w ty (c_string src)),
         sh_info_log_length = fst (snd (driver_compile w ty (c_string src))),
         sh_info_log = snd (snd (driver_compile w ty (c_string src))),
         sh_delete_status = False\<rparr>) \<and>
   programs (snd (compileShader w f ty s)) = programs s \<and>
   attrib_pointers (snd (compileShader w f ty s)) = attrib_pointers s \<and>
   attrib_enabled (snd (compileShader w f ty s)) = attrib_enabled s \<and>
   gl_errors (snd (compileShader w f ty s)) = gl_errors s \<and>
   polls (snd (compileShader w f ty s)) = polls s \<and>
   ticks (snd (compileShader w f ty s)) = ticks s"
  by (simp add: compileShader_def gl_Str_terminated Let_def split_def gl_CreateShader_def
        gen_name_def gl_GetShaderiv_def gl_GetShaderInfoLog_def gl_CompileShader_def
        gl_ShaderSource_def issue_def map_of_map_entry update_conv' c_string_NUL FALSE_def
        fun_eq_iff split: sum.splits)

lemma compileShader_rejected_pair:
  assumes "files w f = Inr src" "\<not> fst (driver_compile w ty (c_string src))"
  obtains (err) e s1 where "compileShader w f ty s = (Err e, s1)"
  | (panic) p s1 where "compileShader w f ty s = (Panic p, s1)"
  using compileShader_fst [OF assms(1), of ty s] assms(2)
  by (cases "compileShader w f ty s") (auto split: sum.splits)

lemma compileShader_accepted_pair:
  assumes "files w f = Inr src" "fst (driver_compile w ty (c_string src))"
  obtains s1 where "compileShader w f ty s = (Ok (next_name s), s1)"
  using compileShader_fst [OF assms(1), of ty s] assms(2)
  by (cases "compileShader w f ty s") simp

subsection \<open>Building the program\<close>

lemma newProgram_vertex_unreadable:
  "files w vf = Inl e \<Longrightarrow> newProgram w vf ff s = (Err e, s)"
  by (simp add: newProgram_def compileShader_unreadable)

lemma newProgram_vertex_rejected:
  assumes "files w vf = Inr vsrc" "\<not> fst (driver_compile w VERTEX_SHADER (c_string vsrc))"
  shows "newProgram w vf ff s = compileShader w vf VERTEX_SHADER s"
  by (rule compileShader_rejected_pair [OF assms, of s]) (simp_all add: newProgram_def)

lemma newProgram_fragment_unreadable:
  assumes "files w vf = Inr vsrc" "fst (driver_compile w VERTEX_SHADER (c_string vsrc))"
    and "files w ff = Inl e"
  shows "newProgram w vf ff s = (Err e, snd (compileShader w vf VERTEX_SHADER s))"
proof -
  obtain s1 where "compileShader w vf VERTEX_SHADER s = (Ok (next_name s), s1)"
    using compileShader_accepted_pair [OF assms(1,2)] by blast
  then show ?thesis
    using assms(3) by (simp add: newProgram_def compileShader_unreadable)
qed

lemma newProgram_fragment_rejected:
  assumes "files w vf = Inr vsrc" "fst (driver_compile w VERTEX_SHADER (c_string vsrc))"
    and "files w ff = Inr fsrc" "\<not> fst (driver_compile w FRAGMENT_SHADER (c_string fsrc))"
  shows "newProgram w vf ff s =
           compileShader w ff FRAGMENT_SHADER (snd (compileShader w vf VERTEX_SHADER s))"
proof -
  obtain s1 where v: "compileShader w vf VERTEX_SHADER s = (Ok (next_name s), s1)"
    using compileShader_accepted_pair [OF assms(1,2)] by blast
  show ?thesis
    by (rule compileShader_rejected_pair [OF assms(3,4), of s1]) (simp_all add: newProgram_def v)
qed

lemma attached_somewhereI:
  "map_of (programs s) p = Some obj \<Longrightarrow> n \<in> set (pr_attached obj) \<Longrightarrow> attached_somewhere s n"
  unfolding attached_somewhere_def list_ex_iff
  by (auto dest!: map_of_SomeD intro!: bexI [where x = "(p, obj)"])

lemma newProgram_linking:
  fixes w :: world and s :: gl_state and vf ff vsrc fsrc :: string
  assumes vf: "files w vf = Inr vsrc" and vok: "fst (driver_compile w VERTEX_SHADER (c_string vsrc))"
    and ff: "files w ff = Inr fsrc" and fok: "fst (driver_compile w FRAGMENT_SHADER (c_string fsrc))"
  defines "linked \<equiv> fst (driver_link w [(VERTEX_SHADER, c_string vsrc, True), (FRAGMENT_SHADER, c_string fsrc, True)])"
  defines "s' \<equiv> snd (newProgram w vf ff s)"
  shows "fst (newProgram w vf ff s) =
     (if linked then Ok (next_name s + 2)
      else case go_log
             (fst (snd (driver_link w [(VERTEX_SHADER, c_string vsrc, True), (FRAGMENT_SHADER, c_string fsrc, True)])))
             (snd (snd (driver_link w [(VERTEX_SHADER, c_string vsrc, True), (FRAGMENT_SHADER, c_string fsrc, True)]))) of
             Inl p \<Rightarrow> Panic p
           | Inr lg \<Rightarrow> Err (Errorf (''failed to link program: '' @ lg)))"
   and "trace s' = trace s @
          [CreateShader VERTEX_SHADER (next_name s), ShaderSource (next_name s) (c_string vsrc),
           CompileShader (next_name s),
           CreateShader FRAGMENT_SHADER (next_name s + 1), ShaderSource (next_name s + 1) (c_string fsrc),
           CompileShader (next_name s + 1),
           CreateProgram (next_name s + 2), AttachShader (next_name s + 2) (next_name s),
           AttachShader (next_name s + 2) (next_name s + 1), LinkProgram (next_name s + 2)] @
          (if linked then [DeleteShader (next_name s), DeleteShader (next_name s + 1)] else [])"
   and "live_shader s' (next_name s) = (\<not> linked)"
   and "live_shader s' (next_name s + 1) = (\<not> linked)"
   and "live_program s' (next_name s + 2)"
   and "next_name s' = next_name s + 3"
   and "attrib_pointers s' = attrib_pointers s" and "attrib_enabled s' = attrib_enabled s"
   and "gl_errors s' = gl_errors s" and "polls s' = polls s" and "ticks s' = ticks s"
proof -
  obtain s1 where v: "compileShader w vf VERTEX_SHADER s = (Ok (next_name s), s1)"
    using compileShader_accepted_pair [OF vf vok] by blast
  obtain s2 where f: "compileShader w ff FRAGMENT_SHADER s1 = (Ok (next_name s1), s2)"
    using compileShader_accepted_pair [OF ff fok] by blast
  have s1: "s1 = snd (compileShader w vf VERTEX_SHADER s)" using v by simp
  have s2: "s2 = snd (compileShader w ff FRAGMENT_SHADER s1)" using f by simp
  note a = compileShader_snd [OF vf, of VERTEX_SHADER s, folded s1]
  note b = compileShader_snd [OF ff, of FRAGMENT_SHADER s1, folded s2]
  have n1: "next_name s1 = next_name s + 1" using a by simp
  have n2: "next_name s2 = next_name s + 2" using b n1 by simp
  have m2: "map_of (shaders s2) (next_name s) = Some \<lparr>sh_type = VERTEX_SHADER, sh_source = c_string vsrc,
         sh_compile_status = True,
         sh_info_log_length = fst (snd (driver_compile w VERTEX_SHADER (c_string vsrc))),
         sh_info_log = snd (snd (driver_compile w VERTEX_SHADER (c_string vsrc))), sh_delete_status = False\<rparr>"
     "map_of (shaders s2) (next_name s + 1) = Some \<lparr>sh_type = FRAGMENT_SHADER, sh_source = c_string fsrc,
         sh_compile_status = True,
         sh_info_log_length = fst (snd (driver_compile w FRAGMENT_SHADER (c_string fsrc))),
         sh_info_log = snd (snd (driver_compile w FRAGMENT_SHADER (c_string fsrc))), sh_delete_status = False\<rparr>"
    using a b n1 vok fok by simp_all
  have t2: "trace s2 = trace s @
          [CreateShader VERTEX_SHADER (next_name s), ShaderSource (next_name s) (c_string vsrc),
           CompileShader (next_name s),
           CreateShader FRAGMENT_SHADER (next_name s + 1), ShaderSource (next_name s + 1) (c_string fsrc),
           CompileShader (next_name s + 1)]"
    using a b n1 by simp
  have o2: "attrib_pointers s2 = attrib_pointers s" "attrib_enabled s2 = attrib_enabled s"
    "gl_errors s2 = gl_errors s" "polls s2 = polls s" "ticks s2 = ticks s"
    using a b by simp_all
  define s6 where "s6 = gl_LinkProgram w (next_name s + 2)
     (gl_AttachShader (next_name s + 2) (next_name s + 1)
        (gl_AttachShader (next_name s + 2) (next_name s) (snd (gl_CreateProgram s2))))"
  have p6: "map_of (programs s6) (next_name s + 2) =
      Some \<lparr>pr_attached = [next_name s, next_name s + 1], pr_link_status = linked,
        pr_info_log_length = fst (snd (driver_link w [(VERTEX_SHADER, c_string vsrc, True), (FRAGMENT_SHADER, c_string fsrc, True)])),
        pr_info_log = snd (snd (driver_link w [(VERTEX_SHADER, c_string vsrc, True), (FRAGMENT_SHADER, c_string fsrc, True)]))\<rparr>"
    by (simp add: s6_def linked_def n2 m2 gl_CreateProgram_def gen_name_def gl_AttachShader_def
          gl_LinkProgram_def issue_def map_of_map_entry update_conv' shader_inputs_def)
  have sh6: "shaders s6 = shaders s2"
    by (simp add: s6_def gl_CreateProgram_def gen_name_def gl_AttachShader_def
          gl_LinkProgram_def issue_def)
  have att: "attached_somewhere s6 (next_name s)" "attached_somewhere s6 (next_name s + 1)"
    by (rule attached_somewhereI [OF p6], simp)+
  have att7: "attached_somewhere (gl_DeleteShader (next_name s) s6) (next_name s + 1)"
    using att(2) by (simp add: attached_somewhere_def gl_DeleteShader_def issue_def)
  have np: "newProgram w vf ff s =
     (if linked then (Ok (next_name s + 2), gl_DeleteShader (next_name s + 1) (gl_DeleteShader (next_name s) s6))
      else (case go_log
             (fst (snd (driver_link w [(VERTEX_SHADER, c_string vsrc, True), (FRAGMENT_SHADER, c_string fsrc, True)])))
             (snd (snd (driver_link w [(VERTEX_SHADER, c_string vsrc, True), (FRAGMENT_SHADER, c_string fsrc, True)]))) of
             Inl p \<Rightarrow> Panic p
           | Inr lg \<Rightarrow> Err (Errorf (''failed to link program: '' @ lg)), s6))"
    using p6 unfolding s6_def
    by (simp add: newProgram_def v f n1 n2 Let_def split_def gl_GetProgramiv_def
          gl_GetProgramInfoLog_def FALSE_def go_log_def gl_CreateProgram_def gen_name_def
          split: sum.splits)
  show "fst (newProgram w vf ff s) =
     (if linked then Ok (next_name s + 2)
      else case go_log
             (fst (snd (driver_link w [(VERTEX_SHADER, c_string vsrc, True), (FRAGMENT_SHADER, c_string fsrc, True)])))
             (snd (snd (driver_link w [(VERTEX_SHADER, c_string vsrc, True), (FRAGMENT_SHADER, c_string fsrc, True)]))) of
             Inl p \<Rightarrow> Panic p
           | Inr lg \<Rightarrow> Err (Errorf (''failed to link program: '' @ lg)))"
    by (simp add: np)
  have t6: "trace s6 = trace s2 @ [CreateProgram (next_name s + 2), AttachShader (next_name s + 2) (next_name s),
           AttachShader (next_name s + 2) (next_name s + 1), LinkProgram (next_name s + 2)]"
    by (simp add: s6_def n2 gl_CreateProgram_def gen_name_def gl_AttachShader_def
          gl_LinkProgram_def issue_def)
  show "trace s' = trace s @
          [CreateShader VERTEX_SHADER (next_name s), ShaderSource (next_name s) (c_string vsrc),
           CompileShader (next_name s),
           CreateShader FRAGMENT_SHADER (next_name s + 1), ShaderSource (next_name s + 1) (c_string fsrc),
           CompileShader (next_name s + 1),
           CreateProgram (next_name s + 2), AttachShader (next_name s + 2) (next_name s),
           AttachShader (next_name s + 2) (next_name s + 1), LinkProgram (next_name s + 2)] @
          (if linked then [DeleteShader (next_name s), DeleteShader (next_name s + 1)] else [])"
    by (simp add: s'_def np t6 t2 gl_DeleteShader_def issue_def)
  show "live_shader s' (next_name s) = (\<not> linked)"
    using att att7
    by (simp add: s'_def np live_shader_def gl_DeleteShader_def issue_def sh6 m2 map_of_map_entry)
  show "live_shader s' (next_name s + 1) = (\<not> linked)"
    using att att7
    by (simp add: s'_def np live_shader_def gl_DeleteShader_def issue_def sh6 m2 map_of_map_entry)
  show "live_program s' (next_name s + 2)"
    using p6 by (simp add: s'_def np live_program_def gl_DeleteShader_def issue_def)
  show "next_name s' = next_name s + 3"
    by (simp add: s'_def np gl_DeleteShader_def issue_def s6_def n2 gl_CreateProgram_def gen_name_def gl_AttachShader_def
          gl_LinkProgram_def)
  show "attrib_pointers s' = attrib_pointers s" "attrib_enabled s' = attrib_enabled s"
    "gl_errors s' = gl_errors s" "polls s' = polls s" "ticks s' = ticks s"
    by (simp_all add: s'_def np gl_DeleteShader_def issue_def s6_def o2 gl_CreateProgram_def gen_name_def gl_AttachShader_def
          gl_LinkProgram_def)
qed

subsection \<open>The calls of each part of the program\<close>

lemma object_call_not:
  "is_object_call c \<Longrightarrow> \<not> is_UniformMatrix4fv c \<and> \<not> is_BufferData c \<and> \<not> is_DrawArrays c \<and> \<not> is_TexImage2D c"
  by (cases c) (simp_all add: is_object_call_def is_UniformMatrix4fv_def is_BufferData_def is_DrawArrays_def is_TexImage2D_def)

lemma texture_call_not:
  "is_texture_call c \<Longrightarrow> \<not> is_UniformMatrix4fv c \<and> \<not> is_BufferData c \<and> \<not> is_DrawArrays c"
  by (cases c) (simp_all add: is_texture_call_def is_UniformMatrix4fv_def is_BufferData_def is_DrawArrays_def)

lemma filter_object_calls:
  "list_all is_object_call cs \<Longrightarrow>
     filter is_UniformMatrix4fv cs = [] \<and> filter is_BufferData cs = [] \<and> filter is_DrawArrays cs = []
     \<and> filter is_TexImage2D cs = []"
  by (induction cs) (simp_all add: object_call_not)

lemma filter_texture_calls:
  "list_all is_texture_call cs \<Longrightarrow>
     filter is_UniformMatrix4fv cs = [] \<and> filter is_BufferData cs = [] \<and> filter is_DrawArrays cs = []"
  by (induction cs) (simp_all add: texture_call_not)

lemma extends_by_refl: "extends_by P s s"
  by (simp add: extends_by_def)

lemma extends_by_trans: "extends_by P s s1 \<Longrightarrow> extends_by P s1 s2 \<Longrightarrow> extends_by P s s2"
  by (auto simp: extends_by_def)

lemma compileShader_extends: "extends_by is_object_call s (snd (compileShader w f ty s))"
proof (cases "files w f")
  case (Inl e)
  then show ?thesis by (simp add: compileShader_unreadable extends_by_refl)
next
  case (Inr src)
  show ?thesis
    using compileShader_snd [OF Inr, of ty s]
    by (simp add: extends_by_def is_object_call_def)
qed

lemma newProgram_extends: "extends_by is_object_call s (snd (newProgram w vf ff s))"
proof (cases "files w vf")
  case (Inl e)
  then show ?thesis by (simp add: newProgram_vertex_unreadable extends_by_refl)
next
  case vf: (Inr vsrc)
  show ?thesis
  proof (cases "fst (driver_compile w VERTEX_SHADER (c_string vsrc))")
    case False
    then show ?thesis
      by (simp add: newProgram_vertex_rejected [OF vf] compileShader_extends)
  next
    case vok: True
    show ?thesis
    proof (cases "files w ff")
      case (Inl e)
      then show ?thesis
        by (simp add: newProgram_fragment_unreadable [OF vf vok] compileShader_extends)
    next
      case ff: (Inr fsrc)
      show ?thesis
      proof (cases "fst (driver_compile w FRAGMENT_SHADER (c_string fsrc))")
        case False
        then show ?thesis
          using extends_by_trans [OF compileShader_extends compileShader_extends]
          by (simp add: newProgram_fragment_rejected [OF vf vok ff])
      next
        case fok: True
        show ?thesis
          using newProgram_linking [OF vf vok ff fok, of s]
          by (simp add: extends_by_def is_object_call_def)
      qed
    qed
  qed
qed

lemma newTexture_extends: "extends_by is_texture_call s (snd (newTexture w file texNum s))"
  by (simp add: newTexture_def extends_by_def Let_def split_def gl_GenTextures_def gen_name_def
        issue_def is_texture_call_def split: sum.splits)

lemma attrib_setup_trace:
  "trace (attrib_setup w p name asize offset s) =
     trace s @ [VertexAttribPointer (uint32_of_int32 (attrib_location w p name)) asize FLOAT False 32 offset,
                EnableVertexAttribArray (uint32_of_int32 (attrib_location w p name))]"
  "polls (attrib_setup w p name asize offset s) = polls s"
  "ticks (attrib_setup w p name asize offset s) = ticks s"
  "next_name (attrib_setup w p name asize offset s) = next_name s"
  "shaders (attrib_setup w p name asize offset s) = shaders s"
  "programs (attrib_setup w p name asize offset s) = programs s"
  by (simp_all add: attrib_setup_def Let_def gl_VertexAttribPointer_def gl_EnableVertexAttribArray_def issue_def)

lemma length_vertices: "length vertices = 336"
  by (simp add: vertices_def)

lemma upload_geometry_fields:
  "trace (upload_geometry w p s) =
     trace s @
     [UseProgram p, GenVertexArrays (next_name s), BindVertexArray (next_name s),
      GenBuffers (next_name s + 1), BindBuffer ARRAY_BUFFER (next_name s + 1),
      BufferData ARRAY_BUFFER 1344 vertices STATIC_DRAW,
      VertexAttribPointer (uint32_of_int32 (attrib_location w p ''position'')) 3 FLOAT False 32 0,
      EnableVertexAttribArray (uint32_of_int32 (attrib_location w p ''position'')),
      VertexAttribPointer (uint32_of_int32 (attrib_location w p ''color'')) 3 FLOAT False 32 12,
      EnableVertexAttribArray (uint32_of_int32 (attrib_location w p ''color'')),
      VertexAttribPointer (uint32_of_int32 (attrib_location w p ''texCoord'')) 2 FLOAT False 32 24,
      EnableVertexAttribArray (uint32_of_int32 (attrib_location w p ''texCoord''))]"
  "polls (upload_geometry w p s) = polls s"
  "ticks (upload_geometry w p s) = ticks s"
  by (simp_all add: upload_geometry_def Let_def split_def attrib_setup_trace gl_GenVertexArrays_def
        gl_GenBuffers_def gen_name_def issue_def length_vertices)

lemma set_uniforms_fst:
  "fst (set_uniforms w p s) = (uniform_location w p ''model'', get_time w (ticks s))"
  by (simp add: set_uniforms_def Let_def split_def glfw_GetTime_def issue_def)

lemma set_uniforms_eq:
  "trace (snd (set_uniforms w p s)) =
     trace s @ [UniformMatrix4fv (uniform_location w p ''view'') 1 False MatView,
                UniformMatrix4fv (uniform_location w p ''proj'') 1 False MatProj,
                Enable DEPTH_TEST, ClearColor 1 1 1 1]"
  "polls (snd (set_uniforms w p s)) = polls s"
  "ticks (snd (set_uniforms w p s)) = ticks s + 1"
  by (simp_all add: set_uniforms_def Let_def split_def glfw_GetTime_def issue_def)


lemma frame_fields:
  "trace (frame w u st s) = trace s @ frame_calls u (rotation_angle st (get_time w (ticks s)))"
  "polls (frame w u st s) = polls s + 1"
  "ticks (frame w u st s) = ticks s + 1"
  "next_name (frame w u st s) = next_name s"
  "shaders (frame w u st s) = shaders s"
  "programs (frame w u st s) = programs s"
  "attrib_pointers (frame w u st s) = attrib_pointers s"
  "attrib_enabled (frame w u st s) = attrib_enabled s"
  "gl_errors (frame w u st s) = gl_errors s"
  by (simp_all add: frame_def Let_def split_def glfw_GetTime_def glfw_PollEvents_def issue_def
        frame_calls_def rotation_angle_def)

lemma frames_counters:
  "polls ((frame w u st ^^ n) s) = polls s + n \<and> ticks ((frame w u st ^^ n) s) = ticks s + n"
  by (induction n) (simp_all add: frame_fields)

lemma frames_trace:
  "trace ((frame w u st ^^ n) s) =
     trace s @ concat (map (\<lambda>k. frame_calls u (rotation_angle st (get_time w (ticks s + k)))) [0..<n])"
  by (induction n) (simp_all add: frame_fields frames_counters)

lemma render_loop_closes:
  "(\<forall>k<N. \<not> should_close w (polls s + k)) \<Longrightarrow> should_close w (polls s + N) \<Longrightarrow>
     render_loop w u st s = Some ((frame w u st ^^ N) s)"
proof (induction N arbitrary: s)
  case 0
  then show ?case
    by (subst render_loop.simps) (simp add: window_ShouldClose_def)
next
  case (Suc N)
  have open_now: "\<not> should_close w (polls s)"
    using Suc.prems(1) [rule_format, of 0] by simp
  have later: "\<forall>k<N. \<not> should_close w (polls (frame w u st s) + k)"
    using Suc.prems(1) by (auto simp: frame_fields)
  have closes: "should_close w (polls (frame w u st s) + N)"
    using Suc.prems(2) by (simp add: frame_fields)
  have "render_loop w u st s = render_loop w u st (frame w u st s)"
    using open_now by (subst render_loop.simps) (simp add: window_ShouldClose_def)
  also have "\<dots> = Some ((frame w u st ^^ N) (frame w u st s))"
    by (rule Suc.IH [OF later closes])
  finally show ?case
    by (simp add: funpow_swap1)
qed

lemma filter_frame_calls:
  "filter is_DrawArrays (frame_calls u a) = [DrawArrays TRIANGLES 0 36]"
  "filter is_UniformMatrix4fv (frame_calls u a) = [UniformMatrix4fv u 1 False (HomogRotate3DZ a)]"
  "filter is_BufferData (frame_calls u a) = []"
  by (simp_all add: frame_calls_def is_DrawArrays_def is_UniformMatrix4fv_def is_BufferData_def)

lemma filter_frames:
  "filter is_DrawArrays (concat (map (\<lambda>k. frame_calls u (a k)) [0..<n])) = replicate n (DrawArrays TRIANGLES 0 36)"
  "filter is_UniformMatrix4fv (concat (map (\<lambda>k. frame_calls u (a k)) [0..<n]))
      = map (\<lambda>k. UniformMatrix4fv u 1 False (HomogRotate3DZ (a k))) [0..<n]"
  "filter is_BufferData (concat (map (\<lambda>k. frame_calls u (a k)) [0..<n])) = []"
  by (induction n) (simp_all add: filter_frame_calls replicate_append_same)

lemma startup_Ok:
  assumes "startup w s0 = (Ok (program, u, st), s)"
  obtains s1 texture s2 where
    "newProgram w ''vertex.glsl'' ''fragment.glsl'' s0 = (Ok program, s1)"
    "newTexture w ''kitten.png'' TEXTURE0 (upload_geometry w program s1) = (Ok texture, s2)"
    "set_uniforms w program s2 = ((u, st), s)"
  using assms by (auto simp: startup_def split: prod.splits result.splits)

lemma startup_Ok_fields:
  assumes "startup w s0 = (Ok (program, u, st), s)"
  shows "u = uniform_location w program ''model''"
    and "st = get_time w (ticks s0)"
    and "ticks s = ticks s0 + 1"
    and "polls s = polls s0"
    and "filter is_UniformMatrix4fv (trace s) = filter is_UniformMatrix4fv (trace s0) @
           [UniformMatrix4fv (uniform_location w program ''view'') 1 False MatView,
            UniformMatrix4fv (uniform_location w program ''proj'') 1 False MatProj]"
    and "filter is_BufferData (trace s) = filter is_BufferData (trace s0) @
           [BufferData ARRAY_BUFFER 1344 vertices STATIC_DRAW]"
    and "filter is_DrawArrays (trace s) = filter is_DrawArrays (trace s0)"
proof -
  obtain s1 texture s2 where
    np: "newProgram w ''vertex.glsl'' ''fragment.glsl'' s0 = (Ok program, s1)" and
    nt: "newTexture w ''kitten.png'' TEXTURE0 (upload_geometry w program s1) = (Ok texture, s2)" and
    su: "set_uniforms w program s2 = ((u, st), s)"
    using startup_Ok [OF assms] by blast
  have e1: "extends_by is_object_call s0 s1"
    using newProgram_extends [of s0 w "''vertex.glsl''" "''fragment.glsl''"] np by simp
  have e2: "extends_by is_texture_call (upload_geometry w program s1) s2"
    using newTexture_extends [of "upload_geometry w program s1" w "''kitten.png''" TEXTURE0] nt by simp
  obtain cs1 where cs1: "trace s1 = trace s0 @ cs1" "list_all is_object_call cs1"
    using e1 by (auto simp: extends_by_def)
  obtain cs2 where cs2: "trace s2 = trace (upload_geometry w program s1) @ cs2" "list_all is_texture_call cs2"
    using e2 by (auto simp: extends_by_def)
  have s: "s = snd (set_uniforms w program s2)" using su by simp
  have t2: "ticks s2 = ticks s0" "polls s2 = polls s0"
    using e1 e2 by (simp_all add: extends_by_def upload_geometry_fields)
  show "u = uniform_location w program ''model''" "st = get_time w (ticks s0)"
    using su set_uniforms_fst [of w program s2] t2 by simp_all
  show "ticks s = ticks s0 + 1" "polls s = polls s0"
    by (simp_all add: s set_uniforms_eq t2)
  show "filter is_UniformMatrix4fv (trace s) = filter is_UniformMatrix4fv (trace s0) @
           [UniformMatrix4fv (uniform_location w program ''view'') 1 False MatView,
            UniformMatrix4fv (uniform_location w program ''proj'') 1 False MatProj]"
    using filter_object_calls [OF cs1(2)] filter_texture_calls [OF cs2(2)]
    by (simp add: s set_uniforms_eq cs2 upload_geometry_fields cs1 is_UniformMatrix4fv_def)
  show "filter is_BufferData (trace s) = filter is_BufferData (trace s0) @
           [BufferData ARRAY_BUFFER 1344 vertices STATIC_DRAW]"
    using filter_object_calls [OF cs1(2)] filter_texture_calls [OF cs2(2)]
    by (simp add: s set_uniforms_eq cs2 upload_geometry_fields cs1 is_BufferData_def)
  show "filter is_DrawArrays (trace s) = filter is_DrawArrays (trace s0)"
    using filter_object_calls [OF cs1(2)] filter_texture_calls [OF cs2(2)]
    by (simp add: s set_uniforms_eq cs2 upload_geometry_fields cs1 is_DrawArrays_def)
qed

subsection \<open>Loading the texture\<close>

lemma newTexture_unreadable:
  "files w file = Inl e \<Longrightarrow> newTexture w file texNum s = (Err e, s)"
  by (simp add: newTexture_def)

lemma newTexture_undecodable:
  "files w file = Inr imgFile \<Longrightarrow> image_decode w imgFile = Inl e \<Longrightarrow>
     newTexture w file texNum s = (Panic NilDereference, s)"
  by (simp add: newTexture_def)

lemma newTexture_stride:
  "files w file = Inr imgFile \<Longrightarrow> image_decode w imgFile = Inr img \<Longrightarrow>
   Stride (new_rgba w (img_bounds img)) \<noteq> size_X (Rect (new_rgba w (img_bounds img))) * 4 \<Longrightarrow>
     newTexture w file texNum s = (Err (Errorf ''unsupported stride''), s)"
  by (simp add: newTexture_def Let_def)

lemma newTexture_uploaded:
  assumes "files w file = Inr imgFile" "image_decode w imgFile = Inr img"
    and "Stride (new_rgba w (img_bounds img)) = size_X (Rect (new_rgba w (img_bounds img))) * 4"
  shows "fst (newTexture w file texNum s) = Ok (next_name s)"
    and "trace (snd (newTexture w file texNum s)) =
           trace s @
           [GenTextures (next_name s), ActiveTexture texNum, BindTexture TEXTURE_2D (next_name s),
            TexParameteri TEXTURE_2D TEXTURE_MIN_FILTER LINEAR,
            TexParameteri TEXTURE_2D TEXTURE_MAG_FILTER LINEAR,
            TexImage2D TEXTURE_2D 0 RGBA
              (word_of_int (size_X (Rect (new_rgba w (img_bounds img)))))
              (word_of_int (size_Y (Rect (new_rgba w (img_bounds img)))))
              0 RGBA UNSIGNED_BYTE (draw_src w (new_rgba w (img_bounds img)) img)]"
  using assms
  by (simp_all add: newTexture_def Let_def split_def gl_GenTextures_def gen_name_def issue_def)

subsection \<open>The whole startup\<close>

lemma startup_succeeds:
  assumes vf: "files w ''vertex.glsl'' = Inr vsrc"
    and vok: "fst (driver_compile w VERTEX_SHADER (c_string vsrc))"
    and ff: "files w ''fragment.glsl'' = Inr fsrc"
    and fok: "fst (driver_compile w FRAGMENT_SHADER (c_string fsrc))"
    and linked: "fst (driver_link w [(VERTEX_SHADER, c_string vsrc, True),
                                      (FRAGMENT_SHADER, c_string fsrc, True)])"
    and kitten: "files w ''kitten.png'' = Inr imgFile" "image_decode w imgFile = Inr img"
    and stride: "Stride (new_rgba w (img_bounds img)) = size_X (Rect (new_rgba w (img_bounds img))) * 4"
  shows "fst (startup w s0) =
           Ok (next_name s0 + 2, uniform_location w (next_name s0 + 2) ''model'',
               get_time w (ticks s0))"
proof -
  obtain s1 where np: "newProgram w ''vertex.glsl'' ''fragment.glsl'' s0 = (Ok (next_name s0 + 2), s1)"
    using newProgram_linking(1) [OF vf vok ff fok, of s0] linked
    by (cases "newProgram w ''vertex.glsl'' ''fragment.glsl'' s0") simp
  have t1: "ticks s1 = ticks s0"
    using newProgram_linking(11) [OF vf vok ff fok, of s0] np by simp
  obtain s2 where nt: "newTexture w ''kitten.png'' TEXTURE0 (upload_geometry w (next_name s0 + 2) s1)
       = (Ok (next_name (upload_geometry w (next_name s0 + 2) s1)), s2)"
    using newTexture_uploaded(1) [OF kitten stride, of TEXTURE0 "upload_geometry w (next_name s0 + 2) s1"]
    by (cases "newTexture w ''kitten.png'' TEXTURE0 (upload_geometry w (next_name s0 + 2) s1)") simp
  have t2: "ticks s2 = ticks s0"
    using newTexture_extends [of "upload_geometry w (next_name s0 + 2) s1" w "''kitten.png''" TEXTURE0] nt t1
    by (simp add: extends_by_def upload_geometry_fields)
  show ?thesis
    using set_uniforms_fst [of w "next_name s0 + 2" s2]
    by (simp add: startup_def np nt t2 split_def)
qed

lemma draw_cube_loop:
  "startup w s0 = (Ok (program, u, st), s) \<Longrightarrow>
     draw_cube w s0 = map_option (\<lambda>s2. (Ok (), s2)) (render_loop w u st s)"
  by (simp add: draw_cube_def)

lemma sample_startup:
  "fst (startup sample_world init_state) = Ok (3, 0, Finite 0)"
  using startup_succeeds [of sample_world "''void main() {}''" "''void main() {}''" "''PNG''" sample_image init_state]
  by (simp add: sample_world_def init_state_def)

subsection \<open>Rounding to nearest\<close>

lemma round_half_even_floor:
  "round_half_even y = \<lfloor>y\<rfloor> \<or> round_half_even y = \<lfloor>y\<rfloor> + 1"
  by (simp add: round_half_even_def Let_def)

lemma round_half_even_mono:
  assumes "y1 \<le> y2"
  shows "round_half_even y1 \<le> round_half_even y2"
proof (cases "\<lfloor>y1\<rfloor> = \<lfloor>y2\<rfloor>")
  case True
  then show ?thesis
    using assms by (auto simp: round_half_even_def Let_def)
next
  case False
  then have "\<lfloor>y1\<rfloor> + 1 \<le> \<lfloor>y2\<rfloor>"
    using floor_mono [OF assms] by simp
  then show ?thesis
    using round_half_even_floor [of y1] round_half_even_floor [of y2] by linarith
qed

lemma round_half_even_of_int: "round_half_even (of_int k) = k"
  by (simp add: round_half_even_def)

lemma round_half_even_le: "y \<le> of_int k \<Longrightarrow> round_half_even y \<le> k"
  using round_half_even_mono [of y "of_int k"] by (simp add: round_half_even_of_int)

lemma round_half_even_ge: "of_int k \<le> y \<Longrightarrow> k \<le> round_half_even y"
  using round_half_even_mono [of "of_int k" y] by (simp add: round_half_even_of_int)

text \<open>The exponent of a nonzero real.\<close>

lemma binade:
  assumes "x \<noteq> 0"
  shows "2 powi \<lfloor>log 2 \<bar>x\<bar>\<rfloor> \<le> \<bar>x\<bar>" and "\<bar>x\<bar> < 2 powi (\<lfloor>log 2 \<bar>x\<bar>\<rfloor> + 1)"
proof -
  have pos: "0 < \<bar>x\<bar>" using assms by simp
  have "2 powr of_int \<lfloor>log 2 \<bar>x\<bar>\<rfloor> \<le> \<bar>x\<bar>"
    using le_log_iff [of 2 "\<bar>x\<bar>" "of_int \<lfloor>log 2 \<bar>x\<bar>\<rfloor>"] pos by simp
  then show "2 powi \<lfloor>log 2 \<bar>x\<bar>\<rfloor> \<le> \<bar>x\<bar>"
    by (simp add: powr_real_of_int')
  have "log 2 \<bar>x\<bar> < of_int (\<lfloor>log 2 \<bar>x\<bar>\<rfloor> + 1)" by linarith
  then have "\<bar>x\<bar> < 2 powr of_int (\<lfloor>log 2 \<bar>x\<bar>\<rfloor> + 1)"
    using log_less_iff [of 2 "\<bar>x\<bar>" "of_int (\<lfloor>log 2 \<bar>x\<bar>\<rfloor> + 1)"] pos by auto
  then show "\<bar>x\<bar> < 2 powi (\<lfloor>log 2 \<bar>x\<bar>\<rfloor> + 1)"
    by (simp only: powr_real_of_int' [of 2, simplified])
qed


lemma quantum_expo: "quantum p emin x = 2 powi (expo emin x - int p + 1)"
  by (simp add: quantum_def expo_def)

lemma quantum_pos: "0 < quantum p emin x"
  by (simp add: quantum_def)

lemma expo_mono:
  assumes "x \<noteq> 0" "\<bar>x\<bar> \<le> \<bar>y\<bar>"
  shows "expo emin x \<le> expo emin y"
proof -
  have "log 2 \<bar>x\<bar> \<le> log 2 \<bar>y\<bar>"
    using assms by simp
  then show ?thesis
    unfolding expo_def by (intro max.mono floor_mono) simp_all
qed

lemma below_next_binade:
  assumes "x \<noteq> 0"
  shows "\<bar>x\<bar> < 2 powi (expo emin x + 1)"
proof -
  have "(2::real) powi (\<lfloor>log 2 \<bar>x\<bar>\<rfloor> + 1) \<le> 2 powi (expo emin x + 1)"
    by (rule power_int_increasing) (simp_all add: expo_def)
  then show ?thesis
    using binade(2) [OF assms] by linarith
qed

lemma above_binade:
  assumes "x \<noteq> 0" "emin < expo emin x"
  shows "2 powi (expo emin x) \<le> \<bar>x\<bar>"
proof -
  have "expo emin x = \<lfloor>log 2 \<bar>x\<bar>\<rfloor>"
    using assms(2) by (simp add: expo_def max_def split: if_splits)
  then show ?thesis
    using binade(1) [OF assms(1)] by simp
qed

lemma two_powi_quantum:
  "2 powi (expo emin x + 1) = of_int (2 ^ p) * quantum p emin x"
  "0 < p \<Longrightarrow> 2 powi (expo emin x) = of_int (2 ^ (p - 1)) * quantum p emin x"
proof -
  have "(2::real) powi (expo emin x + 1) = 2 powi (int p + (expo emin x - int p + 1))"
    by simp
  also have "\<dots> = 2 powi int p * 2 powi (expo emin x - int p + 1)"
    by (rule power_int_add) simp
  finally show "2 powi (expo emin x + 1) = of_int (2 ^ p) * quantum p emin x"
    by (simp add: quantum_expo)
  assume "0 < p"
  then have "(2::real) powi (expo emin x) = 2 powi (int (p - 1) + (expo emin x - int p + 1))"
    by (simp add: of_nat_diff)
  also have "\<dots> = 2 powi int (p - 1) * 2 powi (expo emin x - int p + 1)"
    by (rule power_int_add) simp
  finally show "2 powi (expo emin x) = of_int (2 ^ (p - 1)) * quantum p emin x"
    by (simp add: quantum_expo)
qed

lemma round_nearest_nonzero:
  "x \<noteq> 0 \<Longrightarrow>
     round_nearest p emin x = of_int (round_half_even (x / quantum p emin x)) * quantum p emin x"
  by (simp add: round_nearest_def)

lemma round_nearest_upper:
  assumes "x \<noteq> 0"
  shows "round_nearest p emin x \<le> 2 powi (expo emin x + 1)"
proof -
  have "x \<le> of_int (2 ^ p) * quantum p emin x"
    using below_next_binade [OF assms, of emin] two_powi_quantum(1) [of emin x p] by linarith
  then have "x / quantum p emin x \<le> of_int (2 ^ p)"
    using quantum_pos [of p emin x] by (simp add: pos_divide_le_eq)
  then have "round_half_even (x / quantum p emin x) \<le> 2 ^ p"
    by (rule round_half_even_le)
  then have "real_of_int (round_half_even (x / quantum p emin x)) \<le> of_int (2 ^ p)"
    by linarith
  then have "of_int (round_half_even (x / quantum p emin x)) * quantum p emin x
      \<le> of_int (2 ^ p) * quantum p emin x"
    using quantum_pos [of p emin x] by (simp only: mult_le_cancel_right_pos)
  then show ?thesis
    by (simp only: round_nearest_nonzero [OF assms] two_powi_quantum(1) [of emin x p])
qed

lemma round_nearest_lower:
  assumes "x \<noteq> 0"
  shows "- (2 powi (expo emin x + 1)) \<le> round_nearest p emin x"
proof -
  have "of_int (- (2 ^ p)) * quantum p emin x \<le> x"
    using below_next_binade [OF assms, of emin] two_powi_quantum(1) [of emin x p] by simp
  then have "of_int (- (2 ^ p)) \<le> x / quantum p emin x"
    using quantum_pos [of p emin x] by (simp only: pos_le_divide_eq)
  then have "- (2 ^ p) \<le> round_half_even (x / quantum p emin x)"
    by (rule round_half_even_ge)
  then have "real_of_int (- (2 ^ p)) \<le> of_int (round_half_even (x / quantum p emin x))"
    by linarith
  then have "of_int (- (2 ^ p)) * quantum p emin x
      \<le> of_int (round_half_even (x / quantum p emin x)) * quantum p emin x"
    using quantum_pos [of p emin x] by (simp only: mult_le_cancel_right_pos)
  then show ?thesis
    using two_powi_quantum(1) [of emin x p] by (simp add: round_nearest_nonzero [OF assms])
qed


lemma round_nearest_above:
  assumes "0 < x" "emin < expo emin x" "0 < p"
  shows "2 powi (expo emin x) \<le> round_nearest p emin x"
proof -
  have nz: "x \<noteq> 0" using assms(1) by simp
  have "of_int (2 ^ (p - 1)) * quantum p emin x \<le> x"
    using above_binade [OF nz assms(2)] assms(1) two_powi_quantum(2) [OF assms(3), of emin x]
    by simp
  then have "of_int (2 ^ (p - 1)) \<le> x / quantum p emin x"
    using quantum_pos [of p emin x] by (simp only: pos_le_divide_eq)
  then have "2 ^ (p - 1) \<le> round_half_even (x / quantum p emin x)"
    by (rule round_half_even_ge)
  then have "real_of_int (2 ^ (p - 1)) \<le> of_int (round_half_even (x / quantum p emin x))"
    by linarith
  then have "of_int (2 ^ (p - 1)) * quantum p emin x
      \<le> of_int (round_half_even (x / quantum p emin x)) * quantum p emin x"
    using quantum_pos [of p emin x] by (simp only: mult_le_cancel_right_pos)
  then show ?thesis
    by (simp only: round_nearest_nonzero [OF nz] two_powi_quantum(2) [OF assms(3), of emin x])
qed

lemma round_nearest_below:
  assumes "x < 0" "emin < expo emin x" "0 < p"
  shows "round_nearest p emin x \<le> - (2 powi (expo emin x))"
proof -
  have nz: "x \<noteq> 0" using assms(1) by simp
  have "x \<le> of_int (- (2 ^ (p - 1))) * quantum p emin x"
    using above_binade [OF nz assms(2)] assms(1) two_powi_quantum(2) [OF assms(3), of emin x]
    by simp
  then have "x / quantum p emin x \<le> of_int (- (2 ^ (p - 1)))"
    using quantum_pos [of p emin x] by (simp only: pos_divide_le_eq)
  then have "round_half_even (x / quantum p emin x) \<le> - (2 ^ (p - 1))"
    by (rule round_half_even_le)
  then have "real_of_int (round_half_even (x / quantum p emin x)) \<le> of_int (- (2 ^ (p - 1)))"
    by linarith
  then have "of_int (round_half_even (x / quantum p emin x)) * quantum p emin x
      \<le> of_int (- (2 ^ (p - 1))) * quantum p emin x"
    using quantum_pos [of p emin x] by (simp only: mult_le_cancel_right_pos)
  then show ?thesis
    using two_powi_quantum(2) [OF assms(3), of emin x]
    by (simp add: round_nearest_nonzero [OF nz])
qed

lemma round_nearest_sign:
  "0 \<le> x \<Longrightarrow> 0 \<le> round_nearest p emin x"
  "x \<le> 0 \<Longrightarrow> round_nearest p emin x \<le> 0"
proof -
  assume "0 \<le> x"
  then have "of_int 0 \<le> x / quantum p emin x"
    using quantum_pos [of p emin x] by simp
  then have "0 \<le> round_half_even (x / quantum p emin x)"
    by (rule round_half_even_ge)
  then show "0 \<le> round_nearest p emin x"
    using quantum_pos [of p emin x] by (simp add: round_nearest_def)
next
  assume "x \<le> 0"
  then have "x / quantum p emin x \<le> of_int 0"
    using quantum_pos [of p emin x] by (simp add: divide_le_0_iff)
  then have "round_half_even (x / quantum p emin x) \<le> 0"
    by (rule round_half_even_le)
  then show "round_nearest p emin x \<le> 0"
    using quantum_pos [of p emin x] by (simp add: round_nearest_def mult_le_0_iff)
qed

lemma round_nearest_same_expo:
  assumes "x \<noteq> 0" "y \<noteq> 0" "x \<le> y" "expo emin x = expo emin y"
  shows "round_nearest p emin x \<le> round_nearest p emin y"
proof -
  have q: "quantum p emin x = quantum p emin y"
    by (simp add: quantum_expo assms(4))
  have "x / quantum p emin y \<le> y / quantum p emin y"
    using assms(3) quantum_pos [of p emin y] by (simp add: divide_right_mono)
  then have "round_half_even (x / quantum p emin y) \<le> round_half_even (y / quantum p emin y)"
    by (rule round_half_even_mono)
  then have "real_of_int (round_half_even (x / quantum p emin y))
      \<le> of_int (round_half_even (y / quantum p emin y))"
    by linarith
  then have "of_int (round_half_even (x / quantum p emin y)) * quantum p emin y
      \<le> of_int (round_half_even (y / quantum p emin y)) * quantum p emin y"
    using quantum_pos [of p emin y] by (simp only: mult_le_cancel_right_pos)
  then show ?thesis
    by (simp only: round_nearest_nonzero [OF assms(1)] round_nearest_nonzero [OF assms(2)] q)
qed

lemma round_nearest_mono:
  assumes "x \<le> y" "0 < p"
  shows "round_nearest p emin x \<le> round_nearest p emin y"
proof -
  consider "x \<le> 0 \<and> 0 \<le> y" | "0 < x" | "y < 0"
    by linarith
  then show ?thesis
  proof cases
    case 1
    then show ?thesis
      using round_nearest_sign(2) [of x p emin] round_nearest_sign(1) [of y p emin] by linarith
  next
    case 2
    then have nz: "x \<noteq> 0" "y \<noteq> 0" and y: "0 < y"
      using assms(1) by simp_all
    have le: "expo emin x \<le> expo emin y"
      using expo_mono [OF nz(1), of y emin] assms(1) 2 by simp
    show ?thesis
    proof (cases "expo emin x = expo emin y")
      case True
      then show ?thesis
        by (rule round_nearest_same_expo [OF nz assms(1)])
    next
      case False
      then have lt: "expo emin x + 1 \<le> expo emin y"
        using le by simp
      have "emin \<le> expo emin x"
        by (simp add: expo_def)
      then have "emin < expo emin y"
        using lt by simp
      then have "2 powi (expo emin y) \<le> round_nearest p emin y"
        by (rule round_nearest_above [OF y _ assms(2)])
      moreover have "round_nearest p emin x \<le> 2 powi (expo emin x + 1)"
        by (rule round_nearest_upper [OF nz(1)])
      moreover have "(2::real) powi (expo emin x + 1) \<le> 2 powi (expo emin y)"
        using lt by (intro power_int_increasing) simp_all
      ultimately show ?thesis
        by linarith
    qed
  next
    case 3
    then have nz: "x \<noteq> 0" "y \<noteq> 0" and x: "x < 0"
      using assms(1) by simp_all
    have le: "expo emin y \<le> expo emin x"
      using expo_mono [OF nz(2), of x emin] assms(1) 3 by simp
    show ?thesis
    proof (cases "expo emin x = expo emin y")
      case True
      then show ?thesis
        by (rule round_nearest_same_expo [OF nz assms(1)])
    next
      case False
      then have lt: "expo emin y + 1 \<le> expo emin x"
        using le by simp
      have "emin \<le> expo emin y"
        by (simp add: expo_def)
      then have "emin < expo emin x"
        using lt by simp
      then have "round_nearest p emin x \<le> - (2 powi (expo emin x))"
        by (rule round_nearest_below [OF x _ assms(2)])
      moreover have "- (2 powi (expo emin y + 1)) \<le> round_nearest p emin y"
        by (rule round_nearest_lower [OF nz(2)])
      moreover have "(2::real) powi (expo emin y + 1) \<le> 2 powi (expo emin x)"
        using lt by (intro power_int_increasing) simp_all
      ultimately show ?thesis
        by linarith
    qed
  qed
qed

lemma round_to_format_mono:
  assumes "x \<le> y" "0 < p"
  shows "fle (round_to_format p emin emax x) (round_to_format p emin emax y)"
proof -
  have "(0::real) < 2 powi (emax + 1)"
    by simp
  then show ?thesis
    using round_nearest_mono [OF assms, of emin]
    by (auto simp: round_to_format_def Let_def)
qed

lemma round_to_format_between:
  "fle NegInf (round_to_format p emin emax x)" "fle (round_to_format p emin emax x) PosInf"
  by (simp_all add: round_to_format_def Let_def)

lemma float32_of_mono: "fle a b \<Longrightarrow> fle (float32_of a) (float32_of b)"
  by (cases a; cases b)
    (simp_all add: round32_def round_to_format_mono round_to_format_between)

lemma sub64_mono: "fle t1 t2 \<Longrightarrow> fle (sub64 t1 (Finite s)) (sub64 t2 (Finite s))"
  by (cases t1; cases t2)
    (simp_all add: round64_def round_to_format_mono round_to_format_between)

text \<open>Two values halfway between neighbours in \<^verbatim>\<open>float32\<close>: each goes to the even neighbour.\<close>

lemma floor_log2_eq:
  assumes "2 powi e \<le> \<bar>x\<bar>" "\<bar>x\<bar> < 2 powi (e + 1)"
  shows "\<lfloor>log 2 \<bar>x\<bar>\<rfloor> = e"
proof -
  have pos: "0 < \<bar>x\<bar>"
    using assms(1) by (smt (verit) zero_less_power_int)
  have "2 powr of_int e \<le> \<bar>x\<bar>" "\<bar>x\<bar> < 2 powr of_int (e + 1)"
    using assms by (simp_all only: powr_real_of_int' [of 2, simplified])
  then have "of_int e \<le> log 2 \<bar>x\<bar>" "log 2 \<bar>x\<bar> < of_int (e + 1)"
    using pos by (simp_all add: le_log_iff log_less_iff)
  then show ?thesis
    by linarith
qed

lemma round32_ties:
  "round32 16777217 = Finite 16777216" "round32 16777219 = Finite 16777220"
proof -
  have e: "\<lfloor>log 2 (16777217 :: real)\<rfloor> = 24" "\<lfloor>log 2 (16777219 :: real)\<rfloor> = 24"
    using floor_log2_eq [of 24 16777217] floor_log2_eq [of 24 16777219] by simp_all
  have q: "quantum 24 (- 126) 16777217 = 2" "quantum 24 (- 126) 16777219 = 2"
    by (simp_all add: quantum_def e)
  have r: "round_half_even (16777217 / 2) = 8388608" "round_half_even (16777219 / 2) = 8388610"
    by (simp_all add: round_half_even_def Let_def floor_eq_iff)
  show "round32 16777217 = Finite 16777216" "round32 16777219 = Finite 16777220"
    by (simp_all add: round32_def round_to_format_def round_nearest_def Let_def q r)
qed

text \<open>How far a rounded value is from the real it rounds.\<close>

lemma round_half_even_error: "\<bar>of_int (round_half_even y) - y\<bar> \<le> 1 / 2"
proof -
  have "of_int \<lfloor>y\<rfloor> \<le> y" "y < of_int \<lfloor>y\<rfloor> + 1"
    by linarith+
  then show ?thesis
    by (auto simp: round_half_even_def Let_def)
qed

lemma round_nearest_error: "\<bar>round_nearest p emin x - x\<bar> \<le> quantum p emin x / 2"
proof (cases "x = 0")
  case True
  then show ?thesis
    using quantum_pos [of p emin x] by (simp add: round_nearest_def)
next
  case False
  define q where "q = quantum p emin x"
  have q: "0 < q"
    by (simp add: q_def quantum_pos)
  have "\<bar>of_int (round_half_even (x / q)) - x / q\<bar> * q \<le> 1 / 2 * q"
    using round_half_even_error [of "x / q"] q by (simp only: mult_le_cancel_right_pos)
  moreover have "\<bar>of_int (round_half_even (x / q)) - x / q\<bar> * q =
      \<bar>of_int (round_half_even (x / q)) * q - x\<bar>"
  proof -
    have "\<bar>of_int (round_half_even (x / q)) - x / q\<bar> * q =
        \<bar>(of_int (round_half_even (x / q)) - x / q) * q\<bar>"
      using q by (simp add: abs_mult)
    also have "(of_int (round_half_even (x / q)) - x / q) * q =
        of_int (round_half_even (x / q)) * q - x"
      using q by (simp add: left_diff_distrib)
    finally show ?thesis .
  qed
  ultimately show ?thesis
    using False by (simp add: round_nearest_def q_def)
qed

lemma quantum_bound:
  assumes "x \<noteq> 0" "0 < p"
  shows "quantum p emin x \<le> \<bar>x\<bar> * 2 powi (1 - int p) + 2 powi (emin - int p + 1)"
proof (cases "emin < expo emin x")
  case True
  have "quantum p emin x = 2 powi (expo emin x + (1 - int p))"
    by (simp add: quantum_expo algebra_simps)
  also have "\<dots> = 2 powi (expo emin x) * 2 powi (1 - int p)"
    by (rule power_int_add) simp
  also have "\<dots> \<le> \<bar>x\<bar> * 2 powi (1 - int p)"
    using above_binade [OF assms(1) True] by (simp only: mult_le_cancel_right_pos zero_less_power_int zero_less_numeral)
  finally show ?thesis
    by (smt (verit) zero_less_power_int)
next
  case False
  then have "expo emin x = emin"
    by (simp add: expo_def max_def split: if_splits)
  then have "quantum p emin x = 2 powi (emin - int p + 1)"
    by (simp add: quantum_expo)
  moreover have "0 \<le> \<bar>x\<bar> * 2 powi (1 - int p)"
    by simp
  ultimately show ?thesis
    by linarith
qed

lemma round_nearest_error_bound:
  assumes "0 < p"
  shows "\<bar>round_nearest p emin x - x\<bar> \<le> \<bar>x\<bar> * 2 powi (- int p) + 2 powi (emin - int p)"
proof (cases "x = 0")
  case True
  then show ?thesis
    by (simp add: round_nearest_def)
next
  case False
  have "(2::real) powi (1 + (- int p)) = 2 powi 1 * 2 powi (- int p)"
    "(2::real) powi (1 + (emin - int p)) = 2 powi 1 * 2 powi (emin - int p)"
    by (rule power_int_add, simp)+
  then have h: "(2::real) powi (1 - int p) = 2 * 2 powi (- int p)"
    "(2::real) powi (emin - int p + 1) = 2 * 2 powi (emin - int p)"
    by (simp_all add: add.commute)
  show ?thesis
    using round_nearest_error [of p emin x] quantum_bound [OF False assms, of emin]
    unfolding h by linarith
qed

lemma round_to_format_finite:
  assumes "\<bar>round_nearest p emin x\<bar> < 2 powi (emax + 1)"
  shows "round_to_format p emin emax x = Finite (round_nearest p emin x)"
  using assms by (auto simp: round_to_format_def Let_def)

lemma round64_error:
  assumes "\<bar>x\<bar> \<le> 2 ^ 128"
  shows "\<exists>r. round64 x = Finite r \<and> \<bar>r - x\<bar> \<le> \<bar>x\<bar> / 2 ^ 53 + 1 / 2 ^ 151"
proof -
  have a: "(2::real) powi (- int 53) = 1 / 2 ^ 53"
    by (simp add: power_int_minus field_simps)
  have b: "(2::real) powi (- 1022 - int 53) \<le> 1 / 2 ^ 151"
    using power_int_increasing [of "- 1022 - int 53" "- 151" "2::real"]
    by (simp add: power_int_minus field_simps)
  have c: "(2::real) ^ 129 \<le> 2 powi (1023 + 1)"
    using power_int_increasing [of 129 "1023 + 1" "2::real"] by simp
  have e: "\<bar>round_nearest 53 (- 1022) x - x\<bar> \<le> \<bar>x\<bar> / 2 ^ 53 + 1 / 2 ^ 151"
    using round_nearest_error_bound [of 53 "- 1022" x] a b by simp
  then have "\<bar>round_nearest 53 (- 1022) x\<bar> < 2 ^ 129"
    using assms by simp
  then have "round64 x = Finite (round_nearest 53 (- 1022) x)"
    unfolding round64_def using c by (intro round_to_format_finite) linarith
  then show ?thesis
    using e by simp
qed

lemma round32_error:
  assumes "\<bar>x\<bar> \<le> 2 ^ 127 + 2 ^ 75"
  shows "\<exists>r. round32 x = Finite r \<and> \<bar>r - x\<bar> \<le> \<bar>x\<bar> / 2 ^ 24 + 1 / 2 ^ 150"
proof -
  have a: "(2::real) powi (- int 24) = 1 / 2 ^ 24"
    by (simp add: power_int_minus field_simps)
  have b: "(2::real) powi (- 126 - int 24) = 1 / 2 ^ 150"
    by (simp add: power_int_minus field_simps)
  have c: "(2::real) powi (127 + 1) = 2 ^ 128"
    by simp
  have e: "\<bar>round_nearest 24 (- 126) x - x\<bar> \<le> \<bar>x\<bar> / 2 ^ 24 + 1 / 2 ^ 150"
    using round_nearest_error_bound [of 24 "- 126" x] a b by simp
  then have "\<bar>round_nearest 24 (- 126) x\<bar> < 2 ^ 128"
    using assms by simp
  then have "round32 x = Finite (round_nearest 24 (- 126) x)"
    unfolding round32_def using c by (intro round_to_format_finite) linarith
  then show ?thesis
    using e by simp
qed

lemma two_roundings:
  fixes d x a :: real
  assumes "\<bar>d - x\<bar> \<le> \<bar>x\<bar> / 2 ^ 53 + 1 / 2 ^ 151"
  shows "\<bar>x\<bar> \<le> 2 ^ 127 \<Longrightarrow> \<bar>d\<bar> \<le> 2 ^ 127 + 2 ^ 75"
    and "\<bar>a - d\<bar> \<le> \<bar>d\<bar> / 2 ^ 24 + 1 / 2 ^ 150 \<Longrightarrow> \<bar>a - x\<bar> \<le> \<bar>x\<bar> / 2 ^ 23 + 1 / 2 ^ 149"
  using assms by simp_all

lemma rotation_angle_error:
  assumes "\<bar>t - s\<bar> \<le> 2 ^ 127"
  shows "\<exists>a. rotation_angle (Finite s) (Finite t) = Finite a \<and>
           \<bar>a - (t - s)\<bar> \<le> \<bar>t - s\<bar> / 2 ^ 23 + 1 / 2 ^ 149"
proof -
  obtain d where d: "round64 (t - s) = Finite d" "\<bar>d - (t - s)\<bar> \<le> \<bar>t - s\<bar> / 2 ^ 53 + 1 / 2 ^ 151"
    using round64_error [of "t - s"] assms by auto
  have "\<bar>d\<bar> \<le> 2 ^ 127 + 2 ^ 75"
    by (rule two_roundings(1) [OF d(2) assms])
  then obtain a where a: "round32 d = Finite a" "\<bar>a - d\<bar> \<le> \<bar>d\<bar> / 2 ^ 24 + 1 / 2 ^ 150"
    using round32_error [of d] by auto
  have "\<bar>a - (t - s)\<bar> \<le> \<bar>t - s\<bar> / 2 ^ 23 + 1 / 2 ^ 149"
    by (rule two_roundings(2) [OF d(2) a(2)])
  then show ?thesis
    by (simp add: rotation_angle_def d(1) a(1))
qed

lemma round_nearest_one:
  assumes "0 < p" "emin \<le> 0"
  shows "round_nearest p emin 1 = 1"
proof -
  have "expo emin 1 = 0"
    using assms(2) by (simp add: expo_def)
  then have h: "1 = of_int (2 ^ (p - 1)) * quantum p emin 1"
    using two_powi_quantum(2) [OF assms(1), of emin 1] by simp
  then have q: "1 / quantum p emin 1 = of_int (2 ^ (p - 1))"
    using quantum_pos [of p emin 1] by (simp add: field_simps)
  have "round_nearest p emin 1 = of_int (round_half_even (1 / quantum p emin 1)) * quantum p emin 1"
    by (simp add: round_nearest_def)
  also have "\<dots> = of_int (2 ^ (p - 1)) * quantum p emin 1"
    by (simp only: q round_half_even_of_int)
  finally show ?thesis
    using h by simp
qed

lemma round_nearest_two:
  assumes "0 < p" "emin \<le> 1"
  shows "round_nearest p emin 2 = 2"
proof -
  have "\<lfloor>log 2 \<bar>2 :: real\<bar>\<rfloor> = 1"
    by (rule floor_log2_eq) simp_all
  then have "expo emin 2 = 1"
    using assms(2) by (simp add: expo_def)
  then have h: "2 = of_int (2 ^ (p - 1)) * quantum p emin 2"
    using two_powi_quantum(2) [OF assms(1), of emin 2] by simp
  then have q: "2 / quantum p emin 2 = of_int (2 ^ (p - 1))"
    using quantum_pos [of p emin 2] by (simp add: field_simps)
  have "round_nearest p emin 2 = of_int (round_half_even (2 / quantum p emin 2)) * quantum p emin 2"
    by (simp add: round_nearest_def)
  also have "\<dots> = of_int (2 ^ (p - 1)) * quantum p emin 2"
    by (simp only: q round_half_even_of_int)
  finally show ?thesis
    using h by simp
qed

lemma round_exact:
  "round64 0 = Finite 0" "round64 1 = Finite 1" "round64 2 = Finite 2"
  "round32 0 = Finite 0" "round32 1 = Finite 1" "round32 2 = Finite 2"
proof -
  have r: "round_nearest 53 (- 1022) 0 = 0" "round_nearest 53 (- 1022) 1 = 1"
    "round_nearest 53 (- 1022) 2 = 2" "round_nearest 24 (- 126) 0 = 0"
    "round_nearest 24 (- 126) 1 = 1" "round_nearest 24 (- 126) 2 = 2"
    by (simp_all add: round_nearest_one round_nearest_two) (simp_all add: round_nearest_def)
  show "round64 0 = Finite 0" "round64 1 = Finite 1" "round64 2 = Finite 2"
    "round32 0 = Finite 0" "round32 1 = Finite 1" "round32 2 = Finite 2"
    unfolding round64_def round32_def round_to_format_def Let_def r by simp_all
qed

lemma rotation_angle_seconds:
  "rotation_angle (Finite 0) (Finite 1) = Finite 1"
  "rotation_angle (Finite 0) (Finite 2) = Finite 2"
  "rotation_angle (Finite s) (Finite s) = Finite 0"
  by (simp_all add: rotation_angle_def round_exact)

subsection \<open>The render loop\<close>

text \<open>
  C1. Let the startup succeed and the window answer that it should close after \<open>N\<close>
  polls and not before. Then the loop ends after \<open>N\<close> iterations. Every iteration sends,
  in this order: \<^verbatim>\<open>Clear\<close> of the colour and depth buffers; \<^verbatim>\<open>UniformMatrix4fv\<close> to the
  location of the program's uniform \<^verbatim>\<open>model\<close>, with the rotation about Z by the angle
  \<^verbatim>\<open>float32(now - startTime)\<close>, where \<open>now\<close> is the clock of that iteration and
  \<open>startTime\<close> the clock read at startup; \<^verbatim>\<open>DrawArrays(TRIANGLES, 0, 36)\<close>;
  \<^verbatim>\<open>SwapBuffers\<close>; \<^verbatim>\<open>PollEvents\<close>. The draw calls of the run are those that were there
  before (none, in \<^verbatim>\<open>main\<close>) and \<open>N\<close> times \<^verbatim>\<open>DrawArrays(TRIANGLES, 0, 36)\<close>.

  The angle is the difference of the two clock values up to the two roundings: the start
  time is the clock's answer number \<open>ticks s0\<close>, iteration \<open>k\<close> reads the answer number
  \<open>ticks s0 + 1 + k\<close>, and when both are the numbers \<open>st\<close> and \<open>t\<close> with
  \<open>\<bar>t - st\<bar> \<le> 2 ^ 127\<close>, the angle is a number \<open>a\<close> with
  \<open>\<bar>a - (t - st)\<bar> \<le> \<bar>t - st\<bar> / 2 ^ 23 + 1 / 2 ^ 149\<close>; it is 0 when the clock has not
  moved.
\<close>

theorem render_loop_frames:
  assumes "startup w s0 = (Ok (program, uniModel, startTime), s)"
    and "\<forall>k<N. \<not> should_close w (polls s + k)"
    and "should_close w (polls s + N)"
  shows "uniModel = uniform_location w program ''model'' \<and>
         startTime = get_time w (ticks s0) \<and>
         draw_cube w s0 = Some (Ok (), (frame w uniModel startTime ^^ N) s) \<and>
         (\<forall>n. trace ((frame w uniModel startTime ^^ n) s) =
                trace s @
                concat (map (\<lambda>k. [Clear (COLOR_BUFFER_BIT OR DEPTH_BUFFER_BIT),
                                    UniformMatrix4fv uniModel 1 False
                                      (HomogRotate3DZ
                                         (rotation_angle startTime (get_time w (ticks s + k)))),
                                    DrawArrays TRIANGLES 0 36,
                                    SwapBuffers,
                                    PollEvents]) [0..<n])) \<and>
         filter is_DrawArrays (trace ((frame w uniModel startTime ^^ N) s)) =
           filter is_DrawArrays (trace s0) @ replicate N (DrawArrays TRIANGLES 0 36) \<and>
         ticks s = ticks s0 + 1 \<and>
         (\<forall>k st t. startTime = Finite st \<longrightarrow> get_time w (ticks s + k) = Finite t \<longrightarrow>
                   \<bar>t - st\<bar> \<le> 2 ^ 127 \<longrightarrow>
            (\<exists>a. rotation_angle startTime (get_time w (ticks s + k)) = Finite a \<and>
                 \<bar>a - (t - st)\<bar> \<le> \<bar>t - st\<bar> / 2 ^ 23 + 1 / 2 ^ 149)) \<and>
         (\<forall>k st. startTime = Finite st \<longrightarrow> get_time w (ticks s + k) = Finite st \<longrightarrow>
            rotation_angle startTime (get_time w (ticks s + k)) = Finite 0)"
proof -
  have "draw_cube w s0 = Some (Ok (), (frame w uniModel startTime ^^ N) s)"
    by (simp add: draw_cube_loop [OF assms(1)] render_loop_closes [OF assms(2,3)])
  moreover have "filter is_DrawArrays (trace ((frame w uniModel startTime ^^ N) s)) =
           filter is_DrawArrays (trace s0) @ replicate N (DrawArrays TRIANGLES 0 36)"
    by (simp add: frames_trace filter_frames startup_Ok_fields(7) [OF assms(1)])
  moreover have "\<forall>k st t. startTime = Finite st \<longrightarrow> get_time w (ticks s + k) = Finite t \<longrightarrow>
                   \<bar>t - st\<bar> \<le> 2 ^ 127 \<longrightarrow>
            (\<exists>a. rotation_angle startTime (get_time w (ticks s + k)) = Finite a \<and>
                 \<bar>a - (t - st)\<bar> \<le> \<bar>t - st\<bar> / 2 ^ 23 + 1 / 2 ^ 149)"
    using rotation_angle_error by simp
  moreover have "\<forall>k st. startTime = Finite st \<longrightarrow> get_time w (ticks s + k) = Finite st \<longrightarrow>
            rotation_angle startTime (get_time w (ticks s + k)) = Finite 0"
    by (simp add: rotation_angle_seconds(3))
  moreover have "\<forall>n. trace ((frame w uniModel startTime ^^ n) s) =
                trace s @
                concat (map (\<lambda>k. [Clear (COLOR_BUFFER_BIT OR DEPTH_BUFFER_BIT),
                                    UniformMatrix4fv uniModel 1 False
                                      (HomogRotate3DZ
                                         (rotation_angle startTime (get_time w (ticks s + k)))),
                                    DrawArrays TRIANGLES 0 36,
                                    SwapBuffers,
                                    PollEvents]) [0..<n])"
    by (simp add: frames_trace frame_calls_def)
  ultimately show ?thesis
    using startup_Ok_fields(1,2,3) [OF assms(1)]
    by blast
qed

theorem render_loop_frames_witness:
  "draw_cube sample_world init_state =
     Some (Ok (), (frame sample_world 0 (Finite 0) ^^ 2) (snd (startup sample_world init_state))) \<and>
   filter is_DrawArrays
     (trace ((frame sample_world 0 (Finite 0) ^^ 2) (snd (startup sample_world init_state)))) =
     [DrawArrays TRIANGLES 0 36, DrawArrays TRIANGLES 0 36] \<and>
   trace ((frame sample_world 0 (Finite 0) ^^ 2) (snd (startup sample_world init_state))) =
     trace (snd (startup sample_world init_state)) @
     [Clear (COLOR_BUFFER_BIT OR DEPTH_BUFFER_BIT),
      UniformMatrix4fv 0 1 False (HomogRotate3DZ (Finite 1)),
      DrawArrays TRIANGLES 0 36, SwapBuffers, PollEvents,
      Clear (COLOR_BUFFER_BIT OR DEPTH_BUFFER_BIT),
      UniformMatrix4fv 0 1 False (HomogRotate3DZ (Finite 2)),
      DrawArrays TRIANGLES 0 36, SwapBuffers, PollEvents] \<and>
   (\<exists>a. rotation_angle (Finite 0) (get_time sample_world 2) = Finite a \<and>
        \<bar>a - 2\<bar> \<le> 2 / 2 ^ 23 + 1 / 2 ^ 149)"
proof -
  have st: "startup sample_world init_state = (Ok (3, 0, Finite 0), snd (startup sample_world init_state))"
    using sample_startup by (metis prod.collapse)
  have p: "polls (snd (startup sample_world init_state)) = 0"
    using startup_Ok_fields(4) [OF st] by (simp add: init_state_def)
  have sc: "should_close sample_world k = (2 \<le> k)" for k
    by (simp add: sample_world_def)
  have gt: "get_time sample_world k = Finite (real k)" for k
    by (simp add: sample_world_def)
  have "\<forall>k<2. \<not> should_close sample_world (polls (snd (startup sample_world init_state)) + k)"
    by (simp add: p sc)
  moreover have "should_close sample_world (polls (snd (startup sample_world init_state)) + 2)"
    by (simp add: p sc)
  ultimately have r: "draw_cube sample_world init_state =
       Some (Ok (), (frame sample_world 0 (Finite 0) ^^ 2) (snd (startup sample_world init_state)))"
    "filter is_DrawArrays
       (trace ((frame sample_world 0 (Finite 0) ^^ 2) (snd (startup sample_world init_state)))) =
     filter is_DrawArrays (trace init_state) @ replicate 2 (DrawArrays TRIANGLES 0 36)"
    "\<forall>n. trace ((frame sample_world 0 (Finite 0) ^^ n) (snd (startup sample_world init_state))) =
       trace (snd (startup sample_world init_state)) @
       concat (map (\<lambda>k. [Clear (COLOR_BUFFER_BIT OR DEPTH_BUFFER_BIT),
                           UniformMatrix4fv 0 1 False
                             (HomogRotate3DZ
                                (rotation_angle (Finite 0)
                                   (get_time sample_world (ticks (snd (startup sample_world init_state)) + k)))),
                           DrawArrays TRIANGLES 0 36,
                           SwapBuffers,
                           PollEvents]) [0..<n])"
    "ticks (snd (startup sample_world init_state)) = ticks init_state + 1"
    "\<forall>k st t. Finite 0 = Finite st \<longrightarrow>
        get_time sample_world (ticks (snd (startup sample_world init_state)) + k) = Finite t \<longrightarrow>
        \<bar>t - st\<bar> \<le> 2 ^ 127 \<longrightarrow>
        (\<exists>a. rotation_angle (Finite 0)
                (get_time sample_world (ticks (snd (startup sample_world init_state)) + k)) = Finite a \<and>
             \<bar>a - (t - st)\<bar> \<le> \<bar>t - st\<bar> / 2 ^ 23 + 1 / 2 ^ 149)"
    using render_loop_frames [OF st, of 2] by blast+
  have t: "ticks (snd (startup sample_world init_state)) = 1"
    using r(4) by (simp add: init_state_def)
  have u: "[0..<2] = [0, 1 :: nat]"
    by (simp add: numeral_2_eq_2)
  have d: "replicate 2 (DrawArrays TRIANGLES 0 36) = [DrawArrays TRIANGLES 0 36, DrawArrays TRIANGLES 0 36]"
    by (simp add: numeral_2_eq_2)
  have i: "trace init_state = []"
    by (simp add: init_state_def)
  have "trace ((frame sample_world 0 (Finite 0) ^^ 2) (snd (startup sample_world init_state))) =
     trace (snd (startup sample_world init_state)) @
     [Clear (COLOR_BUFFER_BIT OR DEPTH_BUFFER_BIT),
      UniformMatrix4fv 0 1 False (HomogRotate3DZ (Finite 1)),
      DrawArrays TRIANGLES 0 36, SwapBuffers, PollEvents,
      Clear (COLOR_BUFFER_BIT OR DEPTH_BUFFER_BIT),
      UniformMatrix4fv 0 1 False (HomogRotate3DZ (Finite 2)),
      DrawArrays TRIANGLES 0 36, SwapBuffers, PollEvents]"
    using r(3) [rule_format, of 2] by (simp add: u t gt rotation_angle_seconds)
  moreover have "\<exists>a. rotation_angle (Finite 0) (get_time sample_world 2) = Finite a \<and>
        \<bar>a - 2\<bar> \<le> 2 / 2 ^ 23 + 1 / 2 ^ 149"
    using r(5) [rule_format, of 0 1 2] by (simp add: t gt)
  ultimately show ?thesis
    using r(1,2) by (simp add: d i)
qed

subsection \<open>The vertex table, the upload and the uniforms\<close>

lemma cube_records:
  "list_all (\<lambda>i. set (position i) \<subseteq> {- 1 / 2, 1 / 2} \<and> color i = [1, 1, 1]) [0..<36]"
  by code_simp

lemma quad_records:
  "map position [36..<42] =
     [[- 1, - 1, - 1 / 2], [1, - 1, - 1 / 2], [1, 1, - 1 / 2],
      [1, 1, - 1 / 2], [- 1, 1, - 1 / 2], [- 1, - 1, - 1 / 2]]"
  "list_all (\<lambda>i. color i = [0, 0, 0]) [36..<42]"
  by code_simp+

lemma main_eq:
  "starts w \<Longrightarrow>
     main w = map_option (\<lambda>(r, s). (r, issue Terminate s)) (draw_cube w window_state)"
  by (simp add: main_def open_window_def starts_def window_state_def init_state_def issue_def Let_def)

lemma main_panics:
  "starts w \<Longrightarrow> fst (startup w window_state) = Panic p \<Longrightarrow>
     map_option fst (main w) = Some (Panic p)"
  by (cases "startup w window_state") (simp add: main_eq draw_cube_def)

lemma startup_program_error:
  "fst (newProgram w ''vertex.glsl'' ''fragment.glsl'' s) = Err e \<Longrightarrow>
     startup w s = (Panic (PanicError e), snd (newProgram w ''vertex.glsl'' ''fragment.glsl'' s))"
  by (cases "newProgram w ''vertex.glsl'' ''fragment.glsl'' s") (simp add: startup_def)

lemma drawn_vertices_filter:
  "concat (map drawn_vertices cs) = concat (map drawn_vertices (filter is_DrawArrays cs))"
  by (induction cs) (simp_all add: drawn_vertices_def is_DrawArrays_def split: call.splits)

lemma drawn_replicate:
  "concat (replicate n (drawn_vertices (DrawArrays TRIANGLES 0 36))) = concat (replicate n [0..35])"
  by (simp add: drawn_vertices_def)

text \<open>
  C10. The vertex table has 336 floats, 42 records of 8. The first 36 records are corners
  of the cube (every coordinate \<open>\<plusminus>0.5\<close>, colour white), the last 6 are the two triangles
  of the ground quad (\<open>x\<close> and \<open>y\<close> \<open>\<plusminus>1\<close>, \<open>z = -0.5\<close>, colour black). In a run whose
  startup succeeds the whole table is uploaded by one \<^verbatim>\<open>BufferData\<close> call of
  \<open>336 * 4 = 1344\<close> bytes with \<^verbatim>\<open>STATIC_DRAW\<close>, and no iteration of the loop uploads
  again; every iteration draws the vertices 0 to 35 and no other, so the records 36 to 41
  are never drawn.
\<close>

theorem vertices_uploaded_not_all_drawn:
  assumes "startup w s0 = (Ok (program, uniModel, startTime), s)"
  shows "length vertices = 336 \<and> length vertices = 42 * 8 \<and>
         list_all (\<lambda>i. set (position i) \<subseteq> {- 1 / 2, 1 / 2} \<and> color i = [1, 1, 1]) [0..<36] \<and>
         map position [36..<42] =
           [[- 1, - 1, - 1 / 2], [1, - 1, - 1 / 2], [1, 1, - 1 / 2],
            [1, 1, - 1 / 2], [- 1, 1, - 1 / 2], [- 1, - 1, - 1 / 2]] \<and>
         list_all (\<lambda>i. color i = [0, 0, 0]) [36..<42] \<and>
         int (length vertices) * 4 = 1344 \<and>
         (\<forall>n. filter is_BufferData (trace ((frame w uniModel startTime ^^ n) s)) =
                filter is_BufferData (trace s0) @
                [BufferData ARRAY_BUFFER (int (length vertices) * 4) vertices STATIC_DRAW]) \<and>
         (\<forall>n. concat (map drawn_vertices (trace ((frame w uniModel startTime ^^ n) s))) =
                concat (map drawn_vertices (trace s0)) @ concat (replicate n [0..35]))"
proof -
  have draws: "filter is_DrawArrays (trace ((frame w uniModel startTime ^^ n) s)) =
           filter is_DrawArrays (trace s0) @ replicate n (DrawArrays TRIANGLES 0 36)" for n
    by (simp add: frames_trace filter_frames startup_Ok_fields(7) [OF assms])
  have "concat (map drawn_vertices (trace ((frame w uniModel startTime ^^ n) s))) =
          concat (map drawn_vertices (trace s0)) @ concat (replicate n [0..35])" for n
    using drawn_vertices_filter [of "trace ((frame w uniModel startTime ^^ n) s)"]
      drawn_vertices_filter [of "trace s0"]
    by (simp add: draws drawn_replicate)
  moreover have "filter is_BufferData (trace ((frame w uniModel startTime ^^ n) s)) =
                filter is_BufferData (trace s0) @
                [BufferData ARRAY_BUFFER (int (length vertices) * 4) vertices STATIC_DRAW]" for n
    by (simp add: frames_trace filter_frames startup_Ok_fields(6) [OF assms] length_vertices)
  ultimately show ?thesis
    using cube_records quad_records by (simp add: length_vertices)
qed

theorem vertices_uploaded_not_all_drawn_witness:
  "filter is_BufferData
     (trace ((frame sample_world 0 (Finite 0) ^^ 2) (snd (startup sample_world init_state)))) =
     [BufferData ARRAY_BUFFER 1344 vertices STATIC_DRAW] \<and>
   concat (map drawn_vertices
     (trace ((frame sample_world 0 (Finite 0) ^^ 2) (snd (startup sample_world init_state))))) =
     [0..35] @ [0..35]"
proof -
  have st: "startup sample_world init_state = (Ok (3, 0, Finite 0), snd (startup sample_world init_state))"
    using sample_startup by (metis prod.collapse)
  have "trace init_state = []"
    by (simp add: init_state_def)
  moreover have "concat (replicate 2 [0..35]) = [0..35] @ [0..(35::int)]"
    by (simp add: numeral_2_eq_2)
  moreover have "int (length vertices) * 4 = 1344"
    by (simp add: length_vertices)
  ultimately show ?thesis
    using vertices_uploaded_not_all_drawn [OF st] by simp
qed

lemma writes_uniform_filter:
  "filter (writes_uniform l) cs = filter (writes_uniform l) (filter is_UniformMatrix4fv cs)"
  by (induction cs) (simp_all add: writes_uniform_def is_UniformMatrix4fv_def split: call.splits)

lemma writes_uniform_frames:
  "length (filter (writes_uniform l) (map (\<lambda>k. UniformMatrix4fv u 1 False (m k)) [0..<n])) =
     (if l = u then n else 0)"
  by (induction n) (simp_all add: writes_uniform_def)

text \<open>
  C7. In a run whose startup succeeds, the startup sends exactly two \<^verbatim>\<open>UniformMatrix4fv\<close>
  calls, the view matrix to the location of \<^verbatim>\<open>view\<close> and then the projection matrix to
  the location of \<^verbatim>\<open>proj\<close>; after any number \<open>n\<close> of iterations of the loop the only
  further calls are \<open>n\<close> writes of a rotation to the location of \<^verbatim>\<open>model\<close>. So, when the
  three locations differ, \<^verbatim>\<open>view\<close> and \<^verbatim>\<open>proj\<close> have been written once each and
  \<^verbatim>\<open>model\<close> \<open>n\<close> times, whatever \<open>n\<close> is.
\<close>

theorem uniforms_written:
  assumes "startup w s0 = (Ok (program, uniModel, startTime), s)"
  shows "uniModel = uniform_location w program ''model'' \<and>
         filter is_UniformMatrix4fv (trace s) =
           filter is_UniformMatrix4fv (trace s0) @
           [UniformMatrix4fv (uniform_location w program ''view'') 1 False MatView,
            UniformMatrix4fv (uniform_location w program ''proj'') 1 False MatProj] \<and>
         (\<forall>n. filter is_UniformMatrix4fv (trace ((frame w uniModel startTime ^^ n) s)) =
                filter is_UniformMatrix4fv (trace s) @
                map (\<lambda>k. UniformMatrix4fv (uniform_location w program ''model'') 1 False
                            (HomogRotate3DZ (rotation_angle startTime (get_time w (ticks s + k)))))
                  [0..<n]) \<and>
         (distinct [uniform_location w program ''model'', uniform_location w program ''view'',
                    uniform_location w program ''proj''] \<longrightarrow>
            (\<forall>n. length (filter (writes_uniform (uniform_location w program ''view''))
                            (trace ((frame w uniModel startTime ^^ n) s))) =
                  length (filter (writes_uniform (uniform_location w program ''view'')) (trace s0)) + 1 \<and>
                  length (filter (writes_uniform (uniform_location w program ''proj''))
                            (trace ((frame w uniModel startTime ^^ n) s))) =
                  length (filter (writes_uniform (uniform_location w program ''proj'')) (trace s0)) + 1 \<and>
                  length (filter (writes_uniform (uniform_location w program ''model''))
                            (trace ((frame w uniModel startTime ^^ n) s))) =
                  length (filter (writes_uniform (uniform_location w program ''model'')) (trace s0)) + n))"
proof -
  note f = startup_Ok_fields [OF assms]
  have u: "uniModel = uniform_location w program ''model''"
    by (rule f(1))
  have loop: "filter is_UniformMatrix4fv (trace ((frame w uniModel startTime ^^ n) s)) =
                filter is_UniformMatrix4fv (trace s) @
                map (\<lambda>k. UniformMatrix4fv (uniform_location w program ''model'') 1 False
                            (HomogRotate3DZ (rotation_angle startTime (get_time w (ticks s + k)))))
                  [0..<n]" for n
    by (simp add: frames_trace filter_frames u)
  have count: "length (filter (writes_uniform l) (trace ((frame w uniModel startTime ^^ n) s))) =
      length (filter (writes_uniform l) (trace s0)) +
      (if uniform_location w program ''view'' = l then 1 else 0) +
      (if uniform_location w program ''proj'' = l then 1 else 0) +
      (if l = uniform_location w program ''model'' then n else 0)" for l n
  proof -
    have 1: "filter (writes_uniform l) (trace ((frame w uniModel startTime ^^ n) s)) =
        filter (writes_uniform l) (filter is_UniformMatrix4fv (trace s0)) @
        filter (writes_uniform l)
          [UniformMatrix4fv (uniform_location w program ''view'') 1 False MatView,
           UniformMatrix4fv (uniform_location w program ''proj'') 1 False MatProj] @
        filter (writes_uniform l)
          (map (\<lambda>k. UniformMatrix4fv (uniform_location w program ''model'') 1 False
                            (HomogRotate3DZ (rotation_angle startTime (get_time w (ticks s + k)))))
                  [0..<n])"
      unfolding writes_uniform_filter [of l "trace ((frame w uniModel startTime ^^ n) s)"]
      by (simp only: loop f(5) filter_append append_assoc)
    have 2: "filter (writes_uniform l) (filter is_UniformMatrix4fv (trace s0)) =
          filter (writes_uniform l) (trace s0)"
      by (rule writes_uniform_filter [symmetric])
    have 3: "length (filter (writes_uniform l)
          [UniformMatrix4fv (uniform_location w program ''view'') 1 False MatView,
           UniformMatrix4fv (uniform_location w program ''proj'') 1 False MatProj]) =
        (if uniform_location w program ''view'' = l then 1 else 0) +
        (if uniform_location w program ''proj'' = l then 1 else 0)"
      by (simp add: writes_uniform_def)
    show ?thesis
      unfolding 1 2 length_append 3 writes_uniform_frames by simp
  qed
  have "distinct [uniform_location w program ''model'', uniform_location w program ''view'',
                    uniform_location w program ''proj''] \<longrightarrow>
            (\<forall>n. length (filter (writes_uniform (uniform_location w program ''view''))
                            (trace ((frame w uniModel startTime ^^ n) s))) =
                  length (filter (writes_uniform (uniform_location w program ''view'')) (trace s0)) + 1 \<and>
                  length (filter (writes_uniform (uniform_location w program ''proj''))
                            (trace ((frame w uniModel startTime ^^ n) s))) =
                  length (filter (writes_uniform (uniform_location w program ''proj'')) (trace s0)) + 1 \<and>
                  length (filter (writes_uniform (uniform_location w program ''model''))
                            (trace ((frame w uniModel startTime ^^ n) s))) =
                  length (filter (writes_uniform (uniform_location w program ''model'')) (trace s0)) + n)"
    by (auto simp: count)
  then show ?thesis
    using u f(5) loop by blast
qed

lemma sample_world_simps:
  "starts sample_world"
  "files sample_world f =
     (if f = ''vertex.glsl'' then Inr ''void main() {}''
      else if f = ''fragment.glsl'' then Inr ''void main() {}''
      else if f = ''kitten.png'' then Inr ''PNG''
      else Inl (PathError f))"
  "driver_compile sample_world ty src = (True, 0, [])"
  "driver_link sample_world inputs = (True, 0, [])"
  "uniform_location sample_world p n = (if n = ''model'' then 0 else if n = ''view'' then 1 else 2)"
  "attrib_location sample_world p n = (if n = ''position'' then 0 else if n = ''color'' then 1 else 2)"
  "max_vertex_attribs sample_world = 16"
  "image_decode sample_world bs = Inr sample_image"
  "new_rgba sample_world r =
     \<lparr>Pix = replicate (nat (4 * size_X r * size_Y r)) 0, Stride = 4 * size_X r, Rect = r\<rparr>"
  "should_close sample_world k = (2 \<le> k)"
  "get_time sample_world k = Finite (real k)"
  by (simp_all add: sample_world_def starts_def)

theorem uniforms_written_witness:
  "filter is_UniformMatrix4fv (trace (snd (startup sample_world init_state))) =
     [UniformMatrix4fv 1 1 False MatView, UniformMatrix4fv 2 1 False MatProj] \<and>
   length (filter (writes_uniform 1)
     (trace ((frame sample_world 0 (Finite 0) ^^ 5) (snd (startup sample_world init_state))))) = 1 \<and>
   length (filter (writes_uniform 2)
     (trace ((frame sample_world 0 (Finite 0) ^^ 5) (snd (startup sample_world init_state))))) = 1 \<and>
   length (filter (writes_uniform 0)
     (trace ((frame sample_world 0 (Finite 0) ^^ 5) (snd (startup sample_world init_state))))) = 5"
proof -
  have st: "startup sample_world init_state = (Ok (3, 0, Finite 0), snd (startup sample_world init_state))"
    using sample_startup by (metis prod.collapse)
  have "trace init_state = []"
    by (simp add: init_state_def)
  then show ?thesis
    using uniforms_written [OF st] by (simp add: sample_world_simps)
qed

subsection \<open>The texture\<close>

text \<open>
  C9. When the image file opens and decodes and the stride of the RGBA buffer is not four
  times its width, \<^verbatim>\<open>newTexture\<close> returns the error \<^verbatim>\<open>unsupported stride\<close> and leaves the
  state as it was: it has sent nothing to the driver. In \<^verbatim>\<open>main\<close>, where the file is
  \<^verbatim>\<open>kitten.png\<close>, the initialisations have succeeded and the program has been built, this
  ends the run in a panic with that error.
\<close>

theorem unsupported_stride_fatal:
  assumes "files w path = Inr imgFile" and "image_decode w imgFile = Inr img"
    and "Stride (new_rgba w (img_bounds img)) \<noteq> size_X (Rect (new_rgba w (img_bounds img))) * 4"
  shows "newTexture w path texNum s = (Err (Errorf ''unsupported stride''), s) \<and>
         (path = ''kitten.png'' \<and> starts w \<and>
          fst (newProgram w ''vertex.glsl'' ''fragment.glsl'' window_state) = Ok program \<longrightarrow>
            map_option fst (main w) = Some (Panic (PanicError (Errorf ''unsupported stride''))))"
proof -
  have nt: "newTexture w path texNum s = (Err (Errorf ''unsupported stride''), s)" for texNum s
    by (rule newTexture_stride [OF assms])
  have "map_option fst (main w) = Some (Panic (PanicError (Errorf ''unsupported stride'')))"
    if "path = ''kitten.png''" "starts w"
      "fst (newProgram w ''vertex.glsl'' ''fragment.glsl'' window_state) = Ok program"
  proof -
    have "startup w window_state =
        (Panic (PanicError (Errorf ''unsupported stride'')),
         upload_geometry w program (snd (newProgram w ''vertex.glsl'' ''fragment.glsl'' window_state)))"
      using that(3) nt [unfolded that(1)]
      by (cases "newProgram w ''vertex.glsl'' ''fragment.glsl'' window_state") (simp add: startup_def)
    then show ?thesis
      using main_panics [OF that(2)] by simp
  qed
  then show ?thesis
    using nt by blast
qed

theorem unsupported_stride_fatal_witness:
  "newTexture (sample_world\<lparr>new_rgba := \<lambda>r. \<lparr>Pix = [], Stride = 4 * size_X r + 4, Rect = r\<rparr>\<rparr>)
      ''kitten.png'' TEXTURE0 init_state = (Err (Errorf ''unsupported stride''), init_state) \<and>
   map_option fst (main (sample_world\<lparr>new_rgba := \<lambda>r. \<lparr>Pix = [], Stride = 4 * size_X r + 4, Rect = r\<rparr>\<rparr>))
     = Some (Panic (PanicError (Errorf ''unsupported stride'')))"
proof -
  define w where "w = sample_world\<lparr>new_rgba := \<lambda>r. \<lparr>Pix = [], Stride = 4 * size_X r + 4, Rect = r\<rparr>\<rparr>"
  have p: "fst (newProgram w ''vertex.glsl'' ''fragment.glsl'' window_state) = Ok (next_name window_state + 2)"
    using newProgram_linking(1) [of w "''vertex.glsl''" "''void main() {}''"
          "''fragment.glsl''" "''void main() {}''" window_state]
    by (simp add: w_def sample_world_simps)
  have "starts w"
    using sample_world_simps(1) by (simp add: w_def starts_def)
  then show ?thesis
    using unsupported_stride_fatal [where w = w and path = "''kitten.png''" and imgFile = "''PNG''"
         and img = sample_image and program = "next_name window_state + 2" and texNum = TEXTURE0
         and s = init_state] p
    by (simp add: w_def sample_world_simps sample_image_def)
qed

text \<open>
  C5. When the file opens and \<^verbatim>\<open>image.Decode\<close> fails, \<^verbatim>\<open>newTexture\<close> does not return the
  decode error: the error is dropped, the image is \<^verbatim>\<open>nil\<close> and the next statement panics.
  Whenever \<^verbatim>\<open>newTexture\<close> does return an error, it is the error of opening the file or the
  error \<^verbatim>\<open>unsupported stride\<close> of a decoded image.
\<close>

theorem decode_error_discarded:
  "(files w path = Inr imgFile \<and> image_decode w imgFile = Inl err \<longrightarrow>
      newTexture w path texNum s = (Panic NilDereference, s)) \<and>
   (\<forall>e. fst (newTexture w path texNum s) = Err e \<longrightarrow>
      files w path = Inl e \<or>
      (e = Errorf ''unsupported stride'' \<and>
       (\<exists>bs img. files w path = Inr bs \<and> image_decode w bs = Inr img \<and>
          Stride (new_rgba w (img_bounds img)) \<noteq> size_X (Rect (new_rgba w (img_bounds img))) * 4)))"
  by (auto simp: newTexture_def Let_def split_def split: sum.splits if_splits)

theorem decode_error_discarded_witness:
  "newTexture (sample_world\<lparr>image_decode := \<lambda>bs. Inl (DecodeError ''png: invalid format'')\<rparr>)
      ''kitten.png'' TEXTURE0 init_state = (Panic NilDereference, init_state) \<and>
   fst (newTexture (sample_world\<lparr>image_decode := \<lambda>bs. Inl (DecodeError ''png: invalid format'')\<rparr>)
      ''kitten.png'' TEXTURE0 init_state) \<noteq> Err (DecodeError ''png: invalid format'')"
  using decode_error_discarded [where w = "sample_world\<lparr>image_decode := \<lambda>bs. Inl (DecodeError ''png: invalid format'')\<rparr>"
      and path = "''kitten.png''" and imgFile = "''PNG''" and err = "DecodeError ''png: invalid format''"
      and texNum = TEXTURE0 and s = init_state]
  by (simp add: sample_world_simps)

subsection \<open>Errors of compilation and linking\<close>

lemma main_program_error:
  assumes "starts w" "fst (newProgram w ''vertex.glsl'' ''fragment.glsl'' window_state) = Err e"
  shows "map_option fst (main w) = Some (Panic (PanicError e))"
  using main_panics [OF assms(1)] startup_program_error [OF assms(2)] by simp

lemma startup_program_panic:
  "fst (newProgram w ''vertex.glsl'' ''fragment.glsl'' s) = Panic p \<Longrightarrow>
     startup w s = (Panic p, snd (newProgram w ''vertex.glsl'' ''fragment.glsl'' s))"
  by (cases "newProgram w ''vertex.glsl'' ''fragment.glsl'' s") (simp add: startup_def)

lemma main_program_panic:
  assumes "starts w" "fst (newProgram w ''vertex.glsl'' ''fragment.glsl'' window_state) = Panic p"
  shows "map_option fst (main w) = Some (Panic p)"
  using main_panics [OF assms(1)] startup_program_panic [OF assms(2)] by simp

lemma main_program_fails:
  assumes "starts w"
    and "\<forall>program. fst (newProgram w ''vertex.glsl'' ''fragment.glsl'' window_state) \<noteq> Ok program"
  shows "\<exists>p. map_option fst (main w) = Some (Panic p)"
proof (cases "fst (newProgram w ''vertex.glsl'' ''fragment.glsl'' window_state)")
  case (Ok program)
  then show ?thesis
    using assms(2) by simp
next
  case (Err e)
  then show ?thesis
    using main_program_error [OF assms(1)] by blast
next
  case (Panic p)
  then show ?thesis
    using main_program_panic [OF assms(1)] by blast
qed

text \<open>
  The three ways the buffer for the log comes out, by the length the driver reports: a
  length from 0 to \<open>2 ^ 31 - 2\<close> gives a buffer; for the greatest \<^verbatim>\<open>int32\<close> the sum
  \<^verbatim>\<open>logLength+1\<close> wraps to the least one, and for a length below \<open>-1\<close> it is negative, so
  \<^verbatim>\<open>strings.Repeat\<close> panics; for the length \<open>-1\<close> the buffer is the empty string and
  \<^verbatim>\<open>gl.Str\<close> panics.
\<close>

lemma sint_max_succ:
  assumes "sint (n :: int32) = 2 ^ 31 - 1"
  shows "sint (n + 1) < 0"
proof -
  have "sint n = sint (0x7FFFFFFF :: int32)"
    using assms by simp
  then have "n = 0x7FFFFFFF"
    by (rule signed_word_eqI)
  then show ?thesis
    by simp
qed

lemma go_log_cases:
  "0 \<le> sint n \<Longrightarrow> sint n < 2 ^ 31 - 1 \<Longrightarrow> go_log n L = Inr (log_buffer (sint n) L)"
  "sint n = 2 ^ 31 - 1 \<or> sint n < - 1 \<Longrightarrow> go_log n L = Inl NegativeRepeatCount"
  "sint n = - 1 \<Longrightarrow> go_log n L = Inl MissingNullTerminator"
proof -
  show "0 \<le> sint n \<Longrightarrow> sint n < 2 ^ 31 - 1 \<Longrightarrow> go_log n L = Inr (log_buffer (sint n) L)"
    by (rule go_log_in_range)
  show "go_log n L = Inl NegativeRepeatCount" if "sint n = 2 ^ 31 - 1 \<or> sint n < - 1"
  proof -
    have "sint (n + 1) < 0"
      using that sint_max_succ [of n] sint_succ [of n] by auto
    then show ?thesis
      by (rule go_log_negative)
  qed
  show "go_log n L = Inl MissingNullTerminator" if "sint n = - 1"
  proof -
    have "sint (n + 1) = 0"
      using that sint_succ [of n] by simp
    then show ?thesis
      by (simp add: go_log_def strings_Repeat_def gl_Str_def)
  qed
qed

lemma go_log_shape:
  "(\<exists>p. go_log n L = Inl p) \<or> go_log n L = Inr (log_buffer (sint n) L)"
proof -
  have "sint n < 2 ^ 31"
    using sint_lt [of n] by simp
  then consider "0 \<le> sint n \<and> sint n < 2 ^ 31 - 1" | "sint n = 2 ^ 31 - 1 \<or> sint n < - 1"
    | "sint n = - 1"
    by linarith
  then show ?thesis
    using go_log_cases [of n L] by cases auto
qed

text \<open>
  C3 (as amended). When both shader files are read and compiled and the driver reports a
  failed link, \<^verbatim>\<open>newProgram\<close> returns no program. If the length \<open>n\<close> that the driver
  reports for the info log is from 0 to \<open>2 ^ 31 - 2\<close>, it returns an error: the error is
  \<^verbatim>\<open>failed to link program:\<close> followed by the buffer of \<open>n + 1\<close> bytes into which the
  driver wrote the first \<open>n - 1\<close> bytes of its info log; when \<open>n\<close> is the length of the log
  and its final NUL, that is the whole log and two NULs. In \<^verbatim>\<open>main\<close>, after the
  initialisations, the run then ends in a panic with that error. If the driver reports
  \<open>2 ^ 31 - 1\<close> or less than \<open>-1\<close>, \<^verbatim>\<open>strings.Repeat\<close> panics, and if it reports \<open>-1\<close>,
  \<^verbatim>\<open>gl.Str\<close> panics: \<^verbatim>\<open>newProgram\<close> returns nothing. In every case \<^verbatim>\<open>main\<close> ends in a
  panic.
\<close>

theorem link_error_reported:
  assumes "files w vf = Inr vsrc" and "fst (driver_compile w VERTEX_SHADER (c_string vsrc))"
    and "files w ff = Inr fsrc" and "fst (driver_compile w FRAGMENT_SHADER (c_string fsrc))"
    and "driver_link w [(VERTEX_SHADER, c_string vsrc, True),
                        (FRAGMENT_SHADER, c_string fsrc, True)] = (False, logLength, infoLog)"
  shows "(0 \<le> sint logLength \<and> sint logLength < 2 ^ 31 - 1 \<longrightarrow>
            fst (newProgram w vf ff s) =
              Err (Errorf (''failed to link program: '' @ log_buffer (sint logLength) infoLog)) \<and>
            (vf = ''vertex.glsl'' \<and> ff = ''fragment.glsl'' \<and> starts w \<longrightarrow>
               map_option fst (main w) =
                 Some (Panic (PanicError (Errorf (''failed to link program: '' @
                                                    log_buffer (sint logLength) infoLog)))))) \<and>
         (sint logLength = int (length infoLog) + 1 \<longrightarrow>
            log_buffer (sint logLength) infoLog = infoLog @ [NUL, NUL]) \<and>
         (sint logLength = 2 ^ 31 - 1 \<or> sint logLength < - 1 \<longrightarrow>
            fst (newProgram w vf ff s) = Panic NegativeRepeatCount) \<and>
         (sint logLength = - 1 \<longrightarrow> fst (newProgram w vf ff s) = Panic MissingNullTerminator) \<and>
         (\<forall>program. fst (newProgram w vf ff s) \<noteq> Ok program) \<and>
         (vf = ''vertex.glsl'' \<and> ff = ''fragment.glsl'' \<and> starts w \<longrightarrow>
            (\<exists>p. map_option fst (main w) = Some (Panic p)))"
proof -
  have r: "fst (newProgram w vf ff s) =
      (case go_log logLength infoLog of
         Inl p \<Rightarrow> Panic p
       | Inr lg \<Rightarrow> Err (Errorf (''failed to link program: '' @ lg)))" for s
    using newProgram_linking(1) [OF assms(1-4), of s] by (simp add: assms(5))
  have e: "fst (newProgram w vf ff s) =
      Err (Errorf (''failed to link program: '' @ log_buffer (sint logLength) infoLog))"
    if "0 \<le> sint logLength" "sint logLength < 2 ^ 31 - 1" for s
    by (simp add: r go_log_cases(1) [OF that])
  have m: "map_option fst (main w) =
      Some (Panic (PanicError (Errorf (''failed to link program: '' @
                                         log_buffer (sint logLength) infoLog))))"
    if "0 \<le> sint logLength" "sint logLength < 2 ^ 31 - 1"
      "vf = ''vertex.glsl''" "ff = ''fragment.glsl''" "starts w"
    by (rule main_program_error [OF that(5) e [OF that(1,2), of window_state, unfolded that(3,4)]])
  have n: "fst (newProgram w vf ff s) = Panic NegativeRepeatCount"
    if "sint logLength = 2 ^ 31 - 1 \<or> sint logLength < - 1"
    by (simp add: r go_log_cases(2) [OF that])
  have t: "fst (newProgram w vf ff s) = Panic MissingNullTerminator" if "sint logLength = - 1"
    by (simp add: r go_log_cases(3) [OF that])
  have o: "fst (newProgram w vf ff s) \<noteq> Ok program" for program s
    using go_log_shape [of logLength infoLog] by (auto simp: r)
  have a: "\<exists>p. map_option fst (main w) = Some (Panic p)"
    if "vf = ''vertex.glsl''" "ff = ''fragment.glsl''" "starts w"
    using main_program_fails [OF that(3)] o [of window_state] by (simp add: that(1,2))
  have b: "log_buffer (sint logLength) infoLog = infoLog @ [NUL, NUL]"
    if "sint logLength = int (length infoLog) + 1"
    by (rule log_buffer_facts(2) [OF that])
  show ?thesis
    using e [of s] m n t o [of s] a b by blast
qed

theorem link_error_reported_witness:
  "fst (newProgram (sample_world\<lparr>driver_link := \<lambda>inputs. (False, 24, ''error: varying mismatch'')\<rparr>)
          ''vertex.glsl'' ''fragment.glsl'' init_state) =
     Err (Errorf (''failed to link program: error: varying mismatch'' @ [NUL, NUL])) \<and>
   map_option fst (main (sample_world\<lparr>driver_link := \<lambda>inputs. (False, 24, ''error: varying mismatch'')\<rparr>)) =
     Some (Panic (PanicError (Errorf (''failed to link program: error: varying mismatch'' @ [NUL, NUL]))))"
proof -
  define w where "w = sample_world\<lparr>driver_link := \<lambda>inputs. (False, 24, ''error: varying mismatch'')\<rparr>"
  have w: "starts w" "files w ''vertex.glsl'' = Inr ''void main() {}''"
    "files w ''fragment.glsl'' = Inr ''void main() {}''"
    "fst (driver_compile w ty src)"
    "driver_link w inputs = (False, 24, ''error: varying mismatch'')" for ty src inputs
    using sample_world_simps(1) by (simp_all add: w_def starts_def sample_world_simps)
  have r: "0 \<le> sint (24 :: int32) \<and> sint (24 :: int32) < 2 ^ 31 - 1"
    by simp
  have i: "sint (24 :: int32) = int (length ''error: varying mismatch'') + 1"
    by simp
  note t = link_error_reported [OF w(2) w(4) w(3) w(4) w(5), where s = init_state]
  have "fst (newProgram w ''vertex.glsl'' ''fragment.glsl'' init_state) =
          Err (Errorf (''failed to link program: '' @ log_buffer (sint (24 :: int32)) ''error: varying mismatch''))"
    using t r by blast
  moreover have "map_option fst (main w) =
          Some (Panic (PanicError (Errorf (''failed to link program: '' @
                 log_buffer (sint (24 :: int32)) ''error: varying mismatch''))))"
    using t r w(1) by blast
  moreover have "log_buffer (sint (24 :: int32)) ''error: varying mismatch'' = ''error: varying mismatch'' @ [NUL, NUL]"
    using t i by blast
  ultimately show ?thesis
    unfolding w_def [symmetric] by simp
qed

text \<open>
  A failed link after which \<^verbatim>\<open>newProgram\<close> returns no error: the driver reports the
  length \<open>2 ^ 31 - 1\<close>, \<^verbatim>\<open>logLength+1\<close> is negative and \<^verbatim>\<open>strings.Repeat\<close> panics; and
  with the length \<open>-1\<close> the buffer is empty and \<^verbatim>\<open>gl.Str\<close> panics.
\<close>

theorem link_error_panic_counterexample:
  "fst (newProgram (sample_world\<lparr>driver_link := \<lambda>inputs. (False, 0x7FFFFFFF, ''error: varying mismatch'')\<rparr>)
          ''vertex.glsl'' ''fragment.glsl'' init_state) = Panic NegativeRepeatCount \<and>
   map_option fst (main (sample_world\<lparr>driver_link := \<lambda>inputs. (False, 0x7FFFFFFF, ''error: varying mismatch'')\<rparr>)) =
     Some (Panic NegativeRepeatCount) \<and>
   fst (newProgram (sample_world\<lparr>driver_link := \<lambda>inputs. (False, - 1, ''error: varying mismatch'')\<rparr>)
          ''vertex.glsl'' ''fragment.glsl'' init_state) = Panic MissingNullTerminator"
proof -
  have g: "go_log (0x7FFFFFFF :: int32) L = Inl NegativeRepeatCount"
    "go_log (- 1 :: int32) L = Inl MissingNullTerminator" for L
    by (simp_all add: go_log_cases)
  have r: "fst (newProgram (sample_world\<lparr>driver_link := \<lambda>inputs. (False, n, L)\<rparr>)
                 ''vertex.glsl'' ''fragment.glsl'' s) =
      (case go_log n L of Inl p \<Rightarrow> Panic p
       | Inr lg \<Rightarrow> Err (Errorf (''failed to link program: '' @ lg)))" for n L s
    using newProgram_linking(1) [of "sample_world\<lparr>driver_link := \<lambda>inputs. (False, n, L)\<rparr>"
        "''vertex.glsl''" "''void main() {}''" "''fragment.glsl''" "''void main() {}''" s]
    by (simp add: sample_world_simps)
  have "starts (sample_world\<lparr>driver_link := \<lambda>inputs. (False, 0x7FFFFFFF, ''error: varying mismatch'')\<rparr>)"
    using sample_world_simps(1) by (simp add: starts_def)
  then have "map_option fst (main (sample_world\<lparr>driver_link := \<lambda>inputs. (False, 0x7FFFFFFF, ''error: varying mismatch'')\<rparr>)) =
     Some (Panic NegativeRepeatCount)"
    by (rule main_program_panic) (simp add: r g)
  then show ?thesis
    by (simp add: r g)
qed

text \<open>
  C2 (as amended). When the source file is read and the driver reports a failed
  compilation, \<^verbatim>\<open>compileShader\<close> returns no shader. If the length \<open>n\<close> that the driver
  reports for the info log is from 0 to \<open>2 ^ 31 - 2\<close>, it returns the error
  \<^verbatim>\<open>failed to compile\<close>, the name of the source file, a colon and the buffer of \<open>n + 1\<close>
  bytes into which the driver wrote the first \<open>n - 1\<close> bytes of its info log; that buffer
  is never empty, since it ends in NUL padding, and when \<open>n\<close> is the length of the log and
  its final NUL it is the whole log and two NULs. The error names the file, not the kind of
  shader. If the driver reports \<open>2 ^ 31 - 1\<close> or less than \<open>-1\<close>, \<^verbatim>\<open>strings.Repeat\<close>
  panics, and if it reports \<open>-1\<close>, \<^verbatim>\<open>gl.Str\<close> panics. Whatever \<^verbatim>\<open>compileShader\<close> does
  passes through \<^verbatim>\<open>newProgram\<close> unchanged, for the vertex shader and (when the vertex
  shader compiled) for the fragment shader, and no program object has been created; in
  \<^verbatim>\<open>main\<close>, after the initialisations, the run ends in a panic, with the error when there
  is one.
\<close>

theorem compile_error_reported:
  assumes "files w sourceFile = Inr src"
    and "driver_compile w shaderType (c_string src) = (False, logLength, infoLog)"
  shows "(0 \<le> sint logLength \<and> sint logLength < 2 ^ 31 - 1 \<longrightarrow>
            fst (compileShader w sourceFile shaderType s) =
              Err (Errorf (''failed to compile '' @ sourceFile @ '': '' @
                     log_buffer (sint logLength) infoLog)) \<and>
            (starts w \<and>
             (shaderType = VERTEX_SHADER \<and> sourceFile = ''vertex.glsl'' \<or>
              shaderType = FRAGMENT_SHADER \<and> sourceFile = ''fragment.glsl'' \<and>
              files w ''vertex.glsl'' = Inr vsrc \<and>
              fst (driver_compile w VERTEX_SHADER (c_string vsrc))) \<longrightarrow>
               map_option fst (main w) =
                 Some (Panic (PanicError (Errorf (''failed to compile '' @ sourceFile @ '': '' @
                     log_buffer (sint logLength) infoLog)))))) \<and>
         log_buffer (sint logLength) infoLog \<noteq> [] \<and>
         (sint logLength = int (length infoLog) + 1 \<longrightarrow>
            log_buffer (sint logLength) infoLog = infoLog @ [NUL, NUL]) \<and>
         (sint logLength = 2 ^ 31 - 1 \<or> sint logLength < - 1 \<longrightarrow>
            fst (compileShader w sourceFile shaderType s) = Panic NegativeRepeatCount) \<and>
         (sint logLength = - 1 \<longrightarrow>
            fst (compileShader w sourceFile shaderType s) = Panic MissingNullTerminator) \<and>
         (\<forall>shader. fst (compileShader w sourceFile shaderType s) \<noteq> Ok shader) \<and>
         (shaderType = VERTEX_SHADER \<longrightarrow>
            newProgram w sourceFile ff s = compileShader w sourceFile VERTEX_SHADER s \<and>
            programs (snd (newProgram w sourceFile ff s)) = programs s) \<and>
         (shaderType = FRAGMENT_SHADER \<and> files w vf = Inr vsrc \<and>
          fst (driver_compile w VERTEX_SHADER (c_string vsrc)) \<longrightarrow>
            fst (newProgram w vf sourceFile s) = fst (compileShader w sourceFile FRAGMENT_SHADER s) \<and>
            programs (snd (newProgram w vf sourceFile s)) = programs s) \<and>
         (starts w \<and>
          (shaderType = VERTEX_SHADER \<and> sourceFile = ''vertex.glsl'' \<or>
           shaderType = FRAGMENT_SHADER \<and> sourceFile = ''fragment.glsl'' \<and>
           files w ''vertex.glsl'' = Inr vsrc \<and>
           fst (driver_compile w VERTEX_SHADER (c_string vsrc))) \<longrightarrow>
            (\<exists>p. map_option fst (main w) = Some (Panic p)))"
proof -
  let ?e = "Errorf (''failed to compile '' @ sourceFile @ '': '' @
                  log_buffer (sint logLength) infoLog)"
  have rej: "\<not> fst (driver_compile w shaderType (c_string src))"
    by (simp add: assms(2))
  have c: "fst (compileShader w sourceFile shaderType s) =
      (case go_log logLength infoLog of
         Inl p \<Rightarrow> Panic p
       | Inr lg \<Rightarrow> Err (Errorf (''failed to compile '' @ sourceFile @ '': '' @ lg)))" for s
    using compileShader_fst [OF assms(1), of shaderType s] by (simp add: assms(2))
  have e: "fst (compileShader w sourceFile shaderType s) = Err ?e"
    if "0 \<le> sint logLength" "sint logLength < 2 ^ 31 - 1" for s
    by (simp add: c go_log_cases(1) [OF that])
  have n: "fst (compileShader w sourceFile shaderType s) = Panic NegativeRepeatCount"
    if "sint logLength = 2 ^ 31 - 1 \<or> sint logLength < - 1"
    by (simp add: c go_log_cases(2) [OF that])
  have t: "fst (compileShader w sourceFile shaderType s) = Panic MissingNullTerminator"
    if "sint logLength = - 1"
    by (simp add: c go_log_cases(3) [OF that])
  have o: "fst (compileShader w sourceFile shaderType s) \<noteq> Ok shader" for shader s
    using go_log_shape [of logLength infoLog] by (auto simp: c)
  have v: "newProgram w sourceFile ff s = compileShader w sourceFile VERTEX_SHADER s \<and>
           programs (snd (newProgram w sourceFile ff s)) = programs s"
    if "shaderType = VERTEX_SHADER" for ff s
    using newProgram_vertex_rejected [OF assms(1), of ff s] rej that
      compileShader_snd [OF assms(1), of VERTEX_SHADER s] by simp
  have f: "fst (newProgram w vf sourceFile s) = fst (compileShader w sourceFile FRAGMENT_SHADER s') \<and>
           programs (snd (newProgram w vf sourceFile s)) = programs s"
    if "shaderType = FRAGMENT_SHADER" "files w vf = Inr vsrc"
      "fst (driver_compile w VERTEX_SHADER (c_string vsrc))" for vf vsrc s s'
    using newProgram_fragment_rejected [OF that(2,3) assms(1), of s] rej that(1)
      compileShader_snd [OF assms(1), of FRAGMENT_SHADER "snd (compileShader w vf VERTEX_SHADER s)"]
      compileShader_snd [OF that(2), of VERTEX_SHADER s] c
    by simp
  have np: "fst (newProgram w ''vertex.glsl'' ''fragment.glsl'' window_state) =
        fst (compileShader w sourceFile shaderType window_state)"
    if "shaderType = VERTEX_SHADER \<and> sourceFile = ''vertex.glsl'' \<or>
           shaderType = FRAGMENT_SHADER \<and> sourceFile = ''fragment.glsl'' \<and>
           files w ''vertex.glsl'' = Inr vsrc \<and>
           fst (driver_compile w VERTEX_SHADER (c_string vsrc))"
    using that v [of "''fragment.glsl''" window_state]
      f [of "''vertex.glsl''" vsrc window_state window_state]
    by auto
  have m: "map_option fst (main w) = Some (Panic (PanicError ?e))"
    if "0 \<le> sint logLength" "sint logLength < 2 ^ 31 - 1" "starts w"
      "shaderType = VERTEX_SHADER \<and> sourceFile = ''vertex.glsl'' \<or>
           shaderType = FRAGMENT_SHADER \<and> sourceFile = ''fragment.glsl'' \<and>
           files w ''vertex.glsl'' = Inr vsrc \<and>
           fst (driver_compile w VERTEX_SHADER (c_string vsrc))"
    by (rule main_program_error [OF that(3)]) (simp add: np [OF that(4)] e [OF that(1,2)])
  have a: "\<exists>p. map_option fst (main w) = Some (Panic p)"
    if "starts w"
      "shaderType = VERTEX_SHADER \<and> sourceFile = ''vertex.glsl'' \<or>
           shaderType = FRAGMENT_SHADER \<and> sourceFile = ''fragment.glsl'' \<and>
           files w ''vertex.glsl'' = Inr vsrc \<and>
           fst (driver_compile w VERTEX_SHADER (c_string vsrc))"
    by (rule main_program_fails [OF that(1)]) (simp add: np [OF that(2)] o)
  have b: "log_buffer (sint logLength) infoLog \<noteq> []"
    "sint logLength = int (length infoLog) + 1 \<Longrightarrow>
       log_buffer (sint logLength) infoLog = infoLog @ [NUL, NUL]"
    by (rule log_buffer_facts)+
  show ?thesis
    using e [of s] n t o [of s] v [of ff s] f [of vf vsrc s s] m a b by blast
qed

theorem compile_error_reported_witness:
  "fst (compileShader (sample_world\<lparr>driver_compile := \<lambda>ty src. (ty \<noteq> VERTEX_SHADER, 18, ''0:1: syntax error'')\<rparr>)
          ''vertex.glsl'' VERTEX_SHADER init_state) =
     Err (Errorf (''failed to compile vertex.glsl: 0:1: syntax error'' @ [NUL, NUL])) \<and>
   programs (snd (newProgram (sample_world\<lparr>driver_compile := \<lambda>ty src. (ty \<noteq> VERTEX_SHADER, 18, ''0:1: syntax error'')\<rparr>)
          ''vertex.glsl'' ''fragment.glsl'' init_state)) = [] \<and>
   map_option fst (main (sample_world\<lparr>driver_compile := \<lambda>ty src. (ty \<noteq> VERTEX_SHADER, 18, ''0:1: syntax error'')\<rparr>)) =
     Some (Panic (PanicError (Errorf (''failed to compile vertex.glsl: 0:1: syntax error'' @ [NUL, NUL]))))"
proof -
  define w where "w = sample_world\<lparr>driver_compile := \<lambda>ty src. (ty \<noteq> VERTEX_SHADER, 18, ''0:1: syntax error'')\<rparr>"
  have w: "starts w" "files w ''vertex.glsl'' = Inr ''void main() {}''"
    "driver_compile w VERTEX_SHADER src = (False, 18, ''0:1: syntax error'')" for src
    using sample_world_simps(1) by (simp_all add: w_def starts_def sample_world_simps)
  have r: "0 \<le> sint (18 :: int32) \<and> sint (18 :: int32) < 2 ^ 31 - 1"
    by simp
  have i: "sint (18 :: int32) = int (length ''0:1: syntax error'') + 1"
    by simp
  note t = compile_error_reported [OF w(2) w(3), where s = init_state and ff = "''fragment.glsl''"]
  have "fst (compileShader w ''vertex.glsl'' VERTEX_SHADER init_state) =
           Err (Errorf (''failed to compile '' @ ''vertex.glsl'' @ '': '' @
                  log_buffer (sint (18 :: int32)) ''0:1: syntax error''))"
    using t r by blast
  moreover have "programs (snd (newProgram w ''vertex.glsl'' ''fragment.glsl'' init_state)) = programs init_state"
    using t by blast
  moreover have "map_option fst (main w) =
              Some (Panic (PanicError (Errorf (''failed to compile '' @ ''vertex.glsl'' @ '': '' @
                  log_buffer (sint (18 :: int32)) ''0:1: syntax error''))))"
    using t r w(1) by blast
  moreover have "log_buffer (sint (18 :: int32)) ''0:1: syntax error'' = ''0:1: syntax error'' @ [NUL, NUL]"
    using t i by blast
  moreover have "programs init_state = []"
    by (simp add: init_state_def)
  ultimately show ?thesis
    unfolding w_def [symmetric] by simp
qed

text \<open>
  The error of a failed compilation does not tell the kind of shader, and the part of it
  that the driver wrote may be empty: with one file name and a driver that rejects every
  source without a log, the vertex and the fragment compilation return the same error,
  the file name followed by a single NUL. And there may be no error at all: when the
  driver reports the length \<open>2 ^ 31 - 1\<close>, \<^verbatim>\<open>compileShader\<close> panics in
  \<^verbatim>\<open>strings.Repeat\<close>.
\<close>

theorem compile_error_kind_counterexample:
  "fst (compileShader (sample_world\<lparr>files := \<lambda>f. Inr ''void main() {'',
                                     driver_compile := \<lambda>ty src. (False, 0, [])\<rparr>)
         ''shader.glsl'' VERTEX_SHADER init_state) =
     Err (Errorf (''failed to compile shader.glsl: '' @ [NUL])) \<and>
   fst (compileShader (sample_world\<lparr>files := \<lambda>f. Inr ''void main() {'',
                                     driver_compile := \<lambda>ty src. (False, 0, [])\<rparr>)
         ''shader.glsl'' FRAGMENT_SHADER init_state) =
     Err (Errorf (''failed to compile shader.glsl: '' @ [NUL])) \<and>
   fst (compileShader (sample_world\<lparr>files := \<lambda>f. Inr ''void main() {'',
                                     driver_compile := \<lambda>ty src. (False, 0x7FFFFFFF, ''0:1: syntax error'')\<rparr>)
         ''shader.glsl'' VERTEX_SHADER init_state) = Panic NegativeRepeatCount"
proof -
  have g: "go_log (0 :: int32) [] = Inr [NUL]"
    "go_log (0x7FFFFFFF :: int32) L = Inl NegativeRepeatCount" for L
    by (simp_all add: go_log_cases log_buffer_facts(3))
  show ?thesis
    by (simp add: compileShader_fst [where src = "''void main() {''"] g)
qed

subsection \<open>The shader objects of newProgram\<close>

lemma compileShader_live:
  assumes "files w f = Inr src"
  shows "live_shader (snd (compileShader w f ty s)) (next_name s)"
    and "n \<noteq> next_name s \<Longrightarrow>
           live_shader (snd (compileShader w f ty s)) n = live_shader s n"
  using compileShader_snd [OF assms, of ty s] by (simp_all add: live_shader_def)

text \<open>
  C4 (as amended). After a successful link \<^verbatim>\<open>newProgram\<close> hands both shader objects to
  \<^verbatim>\<open>DeleteShader\<close>, as its last two calls, and returns the program, which stays. When it
  fails it deletes nothing. Only when the vertex shader file cannot be read is the state
  untouched. After a failed vertex compilation the vertex shader object is still held;
  after a failure on the fragment shader the vertex shader object is still held, and the
  fragment shader object too if the file was read; after a failed link both shader objects
  and the program object are still held.
\<close>

theorem newProgram_shader_objects:
  "(files w vf = Inl e \<longrightarrow> newProgram w vf ff s = (Err e, s)) \<and>
   (files w vf = Inr vsrc \<and> \<not> fst (driver_compile w VERTEX_SHADER (c_string vsrc)) \<longrightarrow>
      live_shader (snd (newProgram w vf ff s)) (next_name s)) \<and>
   (files w vf = Inr vsrc \<and> fst (driver_compile w VERTEX_SHADER (c_string vsrc)) \<and>
    files w ff = Inl e \<longrightarrow>
      fst (newProgram w vf ff s) = Err e \<and>
      live_shader (snd (newProgram w vf ff s)) (next_name s)) \<and>
   (files w vf = Inr vsrc \<and> fst (driver_compile w VERTEX_SHADER (c_string vsrc)) \<and>
    files w ff = Inr fsrc \<and> \<not> fst (driver_compile w FRAGMENT_SHADER (c_string fsrc)) \<longrightarrow>
      live_shader (snd (newProgram w vf ff s)) (next_name s) \<and>
      live_shader (snd (newProgram w vf ff s)) (next_name s + 1)) \<and>
   (files w vf = Inr vsrc \<and> fst (driver_compile w VERTEX_SHADER (c_string vsrc)) \<and>
    files w ff = Inr fsrc \<and> fst (driver_compile w FRAGMENT_SHADER (c_string fsrc)) \<and>
    \<not> fst (driver_link w [(VERTEX_SHADER, c_string vsrc, True),
                           (FRAGMENT_SHADER, c_string fsrc, True)]) \<longrightarrow>
      live_shader (snd (newProgram w vf ff s)) (next_name s) \<and>
      live_shader (snd (newProgram w vf ff s)) (next_name s + 1) \<and>
      live_program (snd (newProgram w vf ff s)) (next_name s + 2)) \<and>
   (files w vf = Inr vsrc \<and> fst (driver_compile w VERTEX_SHADER (c_string vsrc)) \<and>
    files w ff = Inr fsrc \<and> fst (driver_compile w FRAGMENT_SHADER (c_string fsrc)) \<and>
    fst (driver_link w [(VERTEX_SHADER, c_string vsrc, True),
                        (FRAGMENT_SHADER, c_string fsrc, True)]) \<longrightarrow>
      fst (newProgram w vf ff s) = Ok (next_name s + 2) \<and>
      trace (snd (newProgram w vf ff s)) =
        trace s @
        [CreateShader VERTEX_SHADER (next_name s), ShaderSource (next_name s) (c_string vsrc),
         CompileShader (next_name s),
         CreateShader FRAGMENT_SHADER (next_name s + 1),
         ShaderSource (next_name s + 1) (c_string fsrc), CompileShader (next_name s + 1),
         CreateProgram (next_name s + 2), AttachShader (next_name s + 2) (next_name s),
         AttachShader (next_name s + 2) (next_name s + 1), LinkProgram (next_name s + 2),
         DeleteShader (next_name s), DeleteShader (next_name s + 1)] \<and>
      \<not> live_shader (snd (newProgram w vf ff s)) (next_name s) \<and>
      \<not> live_shader (snd (newProgram w vf ff s)) (next_name s + 1) \<and>
      live_program (snd (newProgram w vf ff s)) (next_name s + 2))"
proof (intro conjI impI; (elim conjE)?)
  assume "files w vf = Inl e"
  then show "newProgram w vf ff s = (Err e, s)"
    by (rule newProgram_vertex_unreadable)
next
  assume a: "files w vf = Inr vsrc" "\<not> fst (driver_compile w VERTEX_SHADER (c_string vsrc))"
  show "live_shader (snd (newProgram w vf ff s)) (next_name s)"
    by (simp add: newProgram_vertex_rejected [OF a] compileShader_live(1) [OF a(1)])
next
  assume a: "files w vf = Inr vsrc" "fst (driver_compile w VERTEX_SHADER (c_string vsrc))"
    "files w ff = Inl e"
  show "fst (newProgram w vf ff s) = Err e"
    by (simp add: newProgram_fragment_unreadable [OF a])
  show "live_shader (snd (newProgram w vf ff s)) (next_name s)"
    by (simp add: newProgram_fragment_unreadable [OF a] compileShader_live(1) [OF a(1)])
next
  assume a: "files w vf = Inr vsrc" "fst (driver_compile w VERTEX_SHADER (c_string vsrc))"
    "files w ff = Inr fsrc" "\<not> fst (driver_compile w FRAGMENT_SHADER (c_string fsrc))"
  have n1: "next_name (snd (compileShader w vf VERTEX_SHADER s)) = next_name s + 1"
    using compileShader_snd [OF a(1), of VERTEX_SHADER s] by simp
  show "live_shader (snd (newProgram w vf ff s)) (next_name s)"
    using compileShader_live(2) [OF a(3), of "next_name s" "snd (compileShader w vf VERTEX_SHADER s)" FRAGMENT_SHADER]
    by (simp add: newProgram_fragment_rejected [OF a] n1 compileShader_live(1) [OF a(1)])
  show "live_shader (snd (newProgram w vf ff s)) (next_name s + 1)"
    using compileShader_live(1) [OF a(3), of FRAGMENT_SHADER "snd (compileShader w vf VERTEX_SHADER s)"]
    by (simp add: newProgram_fragment_rejected [OF a] n1)
next
  assume a: "files w vf = Inr vsrc" "fst (driver_compile w VERTEX_SHADER (c_string vsrc))"
    "files w ff = Inr fsrc" "fst (driver_compile w FRAGMENT_SHADER (c_string fsrc))"
    and l: "\<not> fst (driver_link w [(VERTEX_SHADER, c_string vsrc, True),
                           (FRAGMENT_SHADER, c_string fsrc, True)])"
  show "live_shader (snd (newProgram w vf ff s)) (next_name s)"
    "live_shader (snd (newProgram w vf ff s)) (next_name s + 1)"
    "live_program (snd (newProgram w vf ff s)) (next_name s + 2)"
    using newProgram_linking(3,4,5) [OF a, of s] l by simp_all
next
  assume a: "files w vf = Inr vsrc" "fst (driver_compile w VERTEX_SHADER (c_string vsrc))"
    "files w ff = Inr fsrc" "fst (driver_compile w FRAGMENT_SHADER (c_string fsrc))"
    and l: "fst (driver_link w [(VERTEX_SHADER, c_string vsrc, True),
                           (FRAGMENT_SHADER, c_string fsrc, True)])"
  show "fst (newProgram w vf ff s) = Ok (next_name s + 2)"
    using newProgram_linking(1) [OF a, of s] l by simp
  show "trace (snd (newProgram w vf ff s)) =
        trace s @
        [CreateShader VERTEX_SHADER (next_name s), ShaderSource (next_name s) (c_string vsrc),
         CompileShader (next_name s),
         CreateShader FRAGMENT_SHADER (next_name s + 1),
         ShaderSource (next_name s + 1) (c_string fsrc), CompileShader (next_name s + 1),
         CreateProgram (next_name s + 2), AttachShader (next_name s + 2) (next_name s),
         AttachShader (next_name s + 2) (next_name s + 1), LinkProgram (next_name s + 2),
         DeleteShader (next_name s), DeleteShader (next_name s + 1)]"
    using newProgram_linking(2) [OF a, of s] l by simp
  show "\<not> live_shader (snd (newProgram w vf ff s)) (next_name s)"
    "\<not> live_shader (snd (newProgram w vf ff s)) (next_name s + 1)"
    "live_program (snd (newProgram w vf ff s)) (next_name s + 2)"
    using newProgram_linking(3,4,5) [OF a, of s] l by simp_all
qed

theorem newProgram_shader_objects_witness:
  "fst (newProgram sample_world ''vertex.glsl'' ''fragment.glsl'' init_state) = Ok 3 \<and>
   \<not> live_shader (snd (newProgram sample_world ''vertex.glsl'' ''fragment.glsl'' init_state)) 1 \<and>
   \<not> live_shader (snd (newProgram sample_world ''vertex.glsl'' ''fragment.glsl'' init_state)) 2 \<and>
   live_program (snd (newProgram sample_world ''vertex.glsl'' ''fragment.glsl'' init_state)) 3 \<and>
   live_shader (snd (newProgram (sample_world\<lparr>driver_link := \<lambda>inputs. (False, 0, [])\<rparr>)
                       ''vertex.glsl'' ''fragment.glsl'' init_state)) 2 \<and>
   live_shader (snd (newProgram (sample_world\<lparr>driver_compile := \<lambda>ty src. (ty = VERTEX_SHADER, 0, [])\<rparr>)
                       ''vertex.glsl'' ''fragment.glsl'' init_state)) 2 \<and>
   newProgram (sample_world\<lparr>files := \<lambda>f. Inl (PathError f)\<rparr>)
      ''vertex.glsl'' ''fragment.glsl'' init_state
     = (Err (PathError ''vertex.glsl''), init_state) \<and>
   live_shader (snd (newProgram (sample_world\<lparr>files := \<lambda>f. if f = ''vertex.glsl'' then Inr [] else Inl (PathError f)\<rparr>)
                       ''vertex.glsl'' ''fragment.glsl'' init_state)) 1"
proof -
  have n: "next_name init_state = 1"
    by (simp add: init_state_def)
  show ?thesis
    using newProgram_shader_objects [where w = sample_world and vf = "''vertex.glsl''"
        and ff = "''fragment.glsl''" and vsrc = "''void main() {}''" and fsrc = "''void main() {}''"
        and s = init_state]
      newProgram_shader_objects [where w = "sample_world\<lparr>driver_link := \<lambda>inputs. (False, 0, [])\<rparr>"
        and vf = "''vertex.glsl''"
        and ff = "''fragment.glsl''" and vsrc = "''void main() {}''" and fsrc = "''void main() {}''"
        and s = init_state]
      newProgram_shader_objects [where w = "sample_world\<lparr>driver_compile := \<lambda>ty src. (ty = VERTEX_SHADER, 0, [])\<rparr>"
        and vf = "''vertex.glsl''"
        and ff = "''fragment.glsl''" and vsrc = "''void main() {}''" and fsrc = "''void main() {}''"
        and s = init_state]
      newProgram_shader_objects [where w = "sample_world\<lparr>files := \<lambda>f. Inl (PathError f)\<rparr>"
        and vf = "''vertex.glsl''" and ff = "''fragment.glsl''" and e = "PathError ''vertex.glsl''"
        and s = init_state]
      newProgram_shader_objects [where w = "sample_world\<lparr>files := \<lambda>f. if f = ''vertex.glsl'' then Inr [] else Inl (PathError f)\<rparr>"
        and vf = "''vertex.glsl''" and ff = "''fragment.glsl''" and e = "PathError ''fragment.glsl''"
        and vsrc = "[]" and s = init_state]
    by (simp add: sample_world_simps n)
qed

text \<open>
  A failure of \<^verbatim>\<open>newProgram\<close> that leaves an object behind: when the driver rejects the
  vertex shader, the shader object 1 that \<^verbatim>\<open>compileShader\<close> created is still held when
  the error is returned.
\<close>

theorem newProgram_failure_counterexample:
  "fst (newProgram (sample_world\<lparr>driver_compile := \<lambda>ty src. (False, 18, ''0:1: syntax error'')\<rparr>)
          ''vertex.glsl'' ''fragment.glsl'' init_state) =
     Err (Errorf (''failed to compile vertex.glsl: 0:1: syntax error'' @ [NUL, NUL])) \<and>
   live_shader (snd (newProgram (sample_world\<lparr>driver_compile := \<lambda>ty src. (False, 18, ''0:1: syntax error'')\<rparr>)
          ''vertex.glsl'' ''fragment.glsl'' init_state)) 1 \<and>
   \<not> live_shader init_state 1 \<and>
   snd (newProgram (sample_world\<lparr>driver_compile := \<lambda>ty src. (False, 18, ''0:1: syntax error'')\<rparr>)
          ''vertex.glsl'' ''fragment.glsl'' init_state) \<noteq> init_state"
proof -
  define w where "w = sample_world\<lparr>driver_compile := \<lambda>ty src. (False, 18, ''0:1: syntax error'')\<rparr>"
  have w: "files w ''vertex.glsl'' = Inr ''void main() {}''"
    "driver_compile w ty src = (False, 18, ''0:1: syntax error'')" for ty src
    by (simp_all add: w_def sample_world_simps)
  have g: "go_log (18 :: int32) ''0:1: syntax error'' = Inr (''0:1: syntax error'' @ [NUL, NUL])"
    by (simp add: go_log_in_range log_buffer_facts(2))
  have h: "\<not> fst (driver_compile w VERTEX_SHADER (c_string ''void main() {}''))"
    by (simp add: w)
  have np: "newProgram w ''vertex.glsl'' ''fragment.glsl'' init_state =
      compileShader w ''vertex.glsl'' VERTEX_SHADER init_state"
    by (rule newProgram_vertex_rejected [OF w(1) h])
  have n: "next_name init_state = 1" "\<not> live_shader init_state 1"
    by (simp_all add: init_state_def live_shader_def)
  have l: "live_shader (snd (newProgram w ''vertex.glsl'' ''fragment.glsl'' init_state)) 1"
    using compileShader_live(1) [OF w(1), of VERTEX_SHADER init_state] by (simp add: np n)
  have "fst (newProgram w ''vertex.glsl'' ''fragment.glsl'' init_state) =
     Err (Errorf (''failed to compile vertex.glsl: 0:1: syntax error'' @ [NUL, NUL]))"
    using compileShader_fst [OF w(1), of VERTEX_SHADER init_state]
    by (simp add: np w g)
  moreover have "snd (newProgram w ''vertex.glsl'' ''fragment.glsl'' init_state) \<noteq> init_state"
    using l n(2) by auto
  ultimately show ?thesis
    using l n(2) by (simp add: w_def)
qed

subsection \<open>Attributes that are not active\<close>

lemma sint_minus_one:
  assumes "sint (x :: 32 word) = - 1"
  shows "x = - 1"
proof -
  have "sint x = sint (- 1 :: 32 word)"
    using assms by simp
  then show ?thesis
    by (rule signed_word_eqI)
qed

lemma uint32_of_minus_one:
  "sint (x :: int32) = - 1 \<Longrightarrow> uint32_of_int32 x = - 1"
  by (simp add: uint32_of_int32_def sint_minus_one)

lemma unat_uint32_minus_one: "unat (- 1 :: uint32) = 2 ^ 32 - 1"
  by (simp add: unsigned_minus_1_eq_mask mask_eq_exp_minus_1)

lemma attrib_setup_ignored:
  assumes "sint (attrib_location w program name) = - 1"
  shows "attrib_setup w program name asize offset s =
           s\<lparr>trace := trace s @ [VertexAttribPointer (- 1) asize FLOAT False 32 offset,
                                EnableVertexAttribArray (- 1)],
             gl_errors := gl_errors s @ [INVALID_VALUE, INVALID_VALUE]\<rparr>"
  by (simp add: attrib_setup_def Let_def gl_VertexAttribPointer_def gl_EnableVertexAttribArray_def
        issue_def uint32_of_minus_one [OF assms])

lemma gl_CompileShader_attrib:
  "gl_CompileShader (w\<lparr>attrib_location := loc\<rparr>) = gl_CompileShader w"
  by (simp add: fun_eq_iff gl_CompileShader_def)

lemma gl_LinkProgram_attrib:
  "gl_LinkProgram (w\<lparr>attrib_location := loc\<rparr>) = gl_LinkProgram w"
  by (simp add: fun_eq_iff gl_LinkProgram_def)

lemma compileShader_attrib:
  "compileShader (w\<lparr>attrib_location := loc\<rparr>) f ty s = compileShader w f ty s"
  unfolding compileShader_def gl_CompileShader_attrib by simp

lemma newProgram_attrib:
  "newProgram (w\<lparr>attrib_location := loc\<rparr>) vf ff s = newProgram w vf ff s"
  unfolding newProgram_def compileShader_attrib gl_LinkProgram_attrib by simp

lemma newTexture_attrib:
  "newTexture (w\<lparr>attrib_location := loc\<rparr>) f t s = newTexture w f t s"
  by (simp add: newTexture_def Let_def split: sum.splits)

lemma newTexture_fst_cong:
  "next_name s = next_name s' \<Longrightarrow> fst (newTexture w f t s) = fst (newTexture w f t s')"
  by (simp add: newTexture_def Let_def split_def gl_GenTextures_def gen_name_def split: sum.splits)

lemma upload_geometry_next_name:
  "next_name (upload_geometry w p s) = next_name s + 2"
  by (simp add: upload_geometry_def Let_def split_def attrib_setup_trace gl_GenVertexArrays_def
        gl_GenBuffers_def gen_name_def issue_def)

lemma newTexture_ticks: "ticks (snd (newTexture w f t s)) = ticks s"
  using newTexture_extends [of s w f t] by (simp add: extends_by_def)

lemma set_uniforms_D:
  "set_uniforms w p s = ((a, b), x) \<Longrightarrow>
     a = uniform_location w p ''model'' \<and> b = get_time w (ticks s)"
  using set_uniforms_fst [of w p s] by simp

lemma newTexture_ticks_D: "newTexture w f t s = (r, s') \<Longrightarrow> ticks s' = ticks s"
  using newTexture_ticks [of w f t s] by simp

lemma newProgram_ticks_D: "newProgram w vf ff s = (r, s') \<Longrightarrow> ticks s' = ticks s"
  using newProgram_extends [of s w vf ff] by (simp add: extends_by_def)

lemma startup_fst:
  "fst (startup w s) =
     (case fst (newProgram w ''vertex.glsl'' ''fragment.glsl'' s) of
        Err err \<Rightarrow> Panic (PanicError err)
      | Panic p \<Rightarrow> Panic p
      | Ok program \<Rightarrow>
          (case fst (newTexture w ''kitten.png'' TEXTURE0
                       (upload_geometry w program (snd (newProgram w ''vertex.glsl'' ''fragment.glsl'' s)))) of
             Err err \<Rightarrow> Panic (PanicError err)
           | Panic p \<Rightarrow> Panic p
           | Ok texture \<Rightarrow>
               Ok (program, uniform_location w program ''model'', get_time w (ticks s))))"
proof -
  have t: "ticks (snd (newProgram w ''vertex.glsl'' ''fragment.glsl'' s)) = ticks s"
    using newProgram_extends [of s w "''vertex.glsl''" "''fragment.glsl''"] by (simp add: extends_by_def)
  show ?thesis
    by (auto simp: startup_def upload_geometry_fields
          dest!: set_uniforms_D newTexture_ticks_D newProgram_ticks_D
          split: prod.splits result.splits)
qed

lemma startup_attrib:
  "fst (startup (w\<lparr>attrib_location := loc\<rparr>) s) = fst (startup w s)"
proof -
  have "fst (newTexture w ''kitten.png'' TEXTURE0
               (upload_geometry (w\<lparr>attrib_location := loc\<rparr>) p s1)) =
        fst (newTexture w ''kitten.png'' TEXTURE0 (upload_geometry w p s1))" for p s1
    by (rule newTexture_fst_cong) (simp add: upload_geometry_next_name)
  then show ?thesis
    by (simp add: startup_fst newProgram_attrib newTexture_attrib cong: result.case_cong)
qed

text \<open>
  C6. Take any world and let the driver answer \<open>-1\<close> for an attribute name of the upload
  code (the attribute is not active in the program). The \<^verbatim>\<open>int32\<close> \<open>-1\<close> converted to
  \<^verbatim>\<open>uint32\<close> is \<open>2 ^ 32 - 1\<close>, and that is the index passed to \<^verbatim>\<open>VertexAttribPointer\<close> and
  to \<^verbatim>\<open>EnableVertexAttribArray\<close>. Both calls are ignored by the driver, which records
  \<^verbatim>\<open>INVALID_VALUE\<close>: no attribute array gets a layout, none is enabled, no object changes.
  Building the program does not ask for attribute locations, so \<^verbatim>\<open>newProgram\<close> does what
  it does with any other answer, and the startup ends with the same result: nothing
  crashes.
\<close>

theorem inactive_attribute_ignored:
  assumes "sint (loc program name) = - 1"
  shows "unat (uint32_of_int32 (loc program name)) = 2 ^ 32 - 1 \<and>
         trace (attrib_setup (w\<lparr>attrib_location := loc\<rparr>) program name asize offset s) =
           trace s @
           [VertexAttribPointer (uint32_of_int32 (loc program name)) asize FLOAT False 32 offset,
            EnableVertexAttribArray (uint32_of_int32 (loc program name))] \<and>
         attrib_pointers (attrib_setup (w\<lparr>attrib_location := loc\<rparr>) program name asize offset s) =
           attrib_pointers s \<and>
         attrib_enabled (attrib_setup (w\<lparr>attrib_location := loc\<rparr>) program name asize offset s) =
           attrib_enabled s \<and>
         shaders (attrib_setup (w\<lparr>attrib_location := loc\<rparr>) program name asize offset s) =
           shaders s \<and>
         programs (attrib_setup (w\<lparr>attrib_location := loc\<rparr>) program name asize offset s) =
           programs s \<and>
         gl_errors (attrib_setup (w\<lparr>attrib_location := loc\<rparr>) program name asize offset s) =
           gl_errors s @ [INVALID_VALUE, INVALID_VALUE] \<and>
         newProgram (w\<lparr>attrib_location := loc\<rparr>) vf ff s0 = newProgram w vf ff s0 \<and>
         fst (startup (w\<lparr>attrib_location := loc\<rparr>) s0) = fst (startup w s0)"
proof -
  have "sint (attrib_location (w\<lparr>attrib_location := loc\<rparr>) program name) = - 1"
    using assms by simp
  from attrib_setup_ignored [OF this] show ?thesis
    by (simp add: uint32_of_minus_one [OF assms] newProgram_attrib startup_attrib
          unat_uint32_minus_one)
qed

theorem inactive_attribute_ignored_witness:
  "unat (uint32_of_int32 (- 1)) = 4294967295 \<and>
   attrib_pointers (attrib_setup (sample_world\<lparr>attrib_location := \<lambda>p n. - 1\<rparr>) 3 ''color'' 3 12 init_state) = [] \<and>
   attrib_enabled (attrib_setup (sample_world\<lparr>attrib_location := \<lambda>p n. - 1\<rparr>) 3 ''color'' 3 12 init_state) = [] \<and>
   fst (startup (sample_world\<lparr>attrib_location := \<lambda>p n. - 1\<rparr>) init_state) = Ok (3, 0, Finite 0)"
proof -
  have "attrib_pointers init_state = []" "attrib_enabled init_state = []"
    by (simp_all add: init_state_def)
  then show ?thesis
    using inactive_attribute_ignored [where w = sample_world and loc = "\<lambda>p n. - 1"
        and program = 3 and name = "''color''" and asize = 3 and offset = 12 and s = init_state
        and s0 = init_state] sample_startup
    by simp
qed

subsection \<open>The angle grows with the clock\<close>

text \<open>
  C8. For a start time that is a finite number and two sample times \<open>t1 \<le> t2\<close>, the
  rotation angle \<^verbatim>\<open>float32(t1 - startTime)\<close> is less than or equal to the rotation angle
  \<^verbatim>\<open>float32(t2 - startTime)\<close>: the \<^verbatim>\<open>float64\<close> subtraction and the conversion to
  \<^verbatim>\<open>float32\<close> both round to nearest, which keeps the order. (That the sample times are
  not before the start time is not needed.)
\<close>

theorem rotation_angle_mono:
  assumes "fle t1 t2"
  shows "fle (rotation_angle (Finite s) t1) (rotation_angle (Finite s) t2)"
  unfolding rotation_angle_def
  by (intro float32_of_mono sub64_mono assms)

theorem rotation_angle_mono_witness:
  "fle (Finite 1) (Finite 2) \<and>
   fle (rotation_angle (Finite 0) (Finite 1)) (rotation_angle (Finite 0) (Finite 2))"
  using rotation_angle_mono [of "Finite 1" "Finite 2" 0] by simp

end
